theory Spec2Isabelle
  imports Complex_Main "HOL-Library.AList"
begin

section \<open>Python values\<close>

text \<open>
  A Python \<open>str\<close> is a sequence of Unicode code points, so it is a list of naturals
  here (\<open>len\<close> counts code points). \<open>py ''abc''\<close> writes an ASCII literal.
\<close>

type_synonym str = "nat list"

abbreviation py :: "string \<Rightarrow> str" where
  "py s \<equiv> map of_char s"

text \<open>
  \<open>decimal.Decimal\<close>: a finite number is sign, coefficient and exponent
  (value \<open>(-1)^sign * coefficient * 10^exponent\<close>); the special values are the two
  infinities and the quiet and signalling NaN (the flag is \<open>True\<close> for sNaN).
\<close>

datatype decimal = Finite bool nat int | Infinity bool | NaN bool

type_synonym uuid = nat

text \<open>
  The values a caller can pass where the code says \<open>Any\<close>. \<open>PyOther k\<close> is an object
  of any other class (a float, a list, ...), \<open>k\<close> telling such objects apart.
\<close>

datatype pyval =
    PyNone
  | PyBool bool
  | PyInt int
  | PyStr str
  | PyDecimal decimal
  | PyUUID uuid
  | PyOther nat

section \<open>exceptions.py\<close>

text \<open>
  Each exception class of the library is a constructor; the argument of a validation
  error says which \<open>raise\<close> statement produced it (its message). \<open>TypeError\<close>,
  \<open>AttributeError\<close>, and the decimal module's \<open>InvalidOperation\<close> and \<open>Overflow\<close>,
  are the interpreter's own.
\<close>

datatype id_msg = IdNotString | IdNullBytes | IdControlChars | IdBadFormat
datatype qty_msg = QtyNotInteger | QtyAtLeast | QtyCannotExceed
datatype name_msg =
  NameNotString | NameNullBytes | NameControlChars | NameTooShort | NameTooLong | NameInvalidChars
datatype price_msg = PriceNotDecimal | PriceNegative | PriceExceeds | PriceDecimalPlaces

datatype error =
    CustomerIDValidationError id_msg
  | QuantityValidationError qty_msg
  | ItemNameValidationError name_msg
  | PriceValidationError price_msg
  | ImmutabilityViolationError str
  | ItemNotInCatalogError
  | ItemNotInCartError
  | TypeError
  | AttributeError
  | InvalidOperation
  | Overflow

section \<open>types.py\<close>

definition MIN_QUANTITY :: int where "MIN_QUANTITY = 1"
definition MAX_QUANTITY :: int where "MAX_QUANTITY = 10000"
definition MIN_ITEM_NAME_LENGTH :: nat where "MIN_ITEM_NAME_LENGTH = 1"
definition MAX_ITEM_NAME_LENGTH :: nat where "MAX_ITEM_NAME_LENGTH = 100"
definition MIN_PRICE :: decimal where "MIN_PRICE = Finite False 0 (- 2)"
definition MAX_PRICE :: decimal where "MAX_PRICE = Finite False 99999999 (- 2)"
definition PRICE_DECIMAL_PLACES :: int where "PRICE_DECIMAL_PLACES = 2"

subsection \<open>Regular expressions\<close>

text \<open>
  The fragment of Python's \<open>re\<close> that the two patterns use. \<open>Bol\<close> is \<open>^\<close>,
  \<open>Eol\<close> is \<open>$\<close>, \<open>Chr p\<close> one character of a class, \<open>Plus p\<close> is \<open>[...]+\<close>.
  \<open>rems r (i, s)\<close> lists, in the order the backtracking matcher tries them, the
  positions and rests that remain after \<open>r\<close> matched a prefix of \<open>s\<close> standing at
  position \<open>i\<close>. Without \<open>re.MULTILINE\<close>, \<open>$\<close> matches at the end of the string and
  just before a newline that ends the string.
\<close>

datatype regex =
    Eps
  | Bol
  | Eol
  | Chr "nat \<Rightarrow> bool"
  | Plus "nat \<Rightarrow> bool"
  | Alt regex regex
  | Cat regex regex

fun rems :: "regex \<Rightarrow> nat \<times> str \<Rightarrow> (nat \<times> str) list" where
  "rems Eps st = [st]"
| "rems Bol (i, s) = (if i = 0 then [(i, s)] else [])"
| "rems Eol (i, s) = (if s = [] \<or> s = [10] then [(i, s)] else [])"
| "rems (Chr p) (i, s) = (case s of [] \<Rightarrow> [] | c # cs \<Rightarrow> if p c then [(Suc i, cs)] else [])"
| "rems (Plus p) (i, s) =
     map (\<lambda>n. (i + n, drop n s)) (rev [1 ..< Suc (length (takeWhile p s))])"
| "rems (Alt r1 r2) st = rems r1 st @ rems r2 st"
| "rems (Cat r1 r2) st = concat (map (rems r2) (rems r1 st))"

text \<open>\<open>r{n}\<close>\<close>

fun times :: "nat \<Rightarrow> regex \<Rightarrow> regex" where
  "times 0 r = Eps"
| "times (Suc n) r = Cat r (times n r)"

text \<open>\<open>pattern.match(s)\<close>, as a truth value: some way of matching at position 0.\<close>

definition re_match :: "regex \<Rightarrow> str \<Rightarrow> bool" where
  "re_match r s = (rems r (0, s) \<noteq> [])"

text \<open>
  \<open>\s\<close> on a \<open>str\<close> pattern is Unicode whitespace, \<open>\d\<close> is any Unicode decimal
  digit (category Nd: blocks of ten code points, listed by their first one, Unicode 14).
\<close>

definition re_space :: "nat \<Rightarrow> bool" where
  "re_space c = ((9 \<le> c \<and> c \<le> 13) \<or> (28 \<le> c \<and> c \<le> 32) \<or> c = 133 \<or> c = 160
     \<or> c = 5760 \<or> (8192 \<le> c \<and> c \<le> 8202) \<or> c = 8232 \<or> c = 8233 \<or> c = 8239
     \<or> c = 8287 \<or> c = 12288)"

definition nd_blocks :: "nat list" where
  "nd_blocks = [48, 1632, 1776, 1984, 2406, 2534, 2662, 2790, 2918, 3046, 3174, 3302, 3430,
     3558, 3664, 3792, 3872, 4160, 4240, 6112, 6160, 6470, 6608, 6784, 6800, 6992, 7088, 7232,
     7248, 42528, 43216, 43264, 43472, 43504, 43600, 44016, 65296, 66720, 68912, 69734, 69872,
     69942, 70096, 70384, 70736, 70864, 71248, 71360, 71472, 71904, 72016, 72784, 73040, 73120,
     92768, 92864, 93008, 120782, 120792, 120802, 120812, 120822, 123200, 123632, 125264,
     130032]"

definition re_digit :: "nat \<Rightarrow> bool" where
  "re_digit c = list_ex (\<lambda>b. b \<le> c \<and> c < b + 10) nd_blocks"

definition upper :: "nat \<Rightarrow> bool" where
  "upper c = (65 \<le> c \<and> c \<le> 90)"

definition lit :: "nat \<Rightarrow> nat \<Rightarrow> bool" where
  "lit a c = (c = a)"

text \<open>\<^verbatim>\<open>CUSTOMER_ID_PATTERN = r"^[A-Z]{3}\d{5}[A-Z]{2}-(A|Q)$"\<close>\<close>

definition CUSTOMER_ID_PATTERN :: regex where
  "CUSTOMER_ID_PATTERN =
     Cat Bol (Cat (times 3 (Chr upper)) (Cat (times 5 (Chr re_digit)) (Cat (times 2 (Chr upper))
       (Cat (Chr (lit 45)) (Cat (Alt (Chr (lit 65)) (Chr (lit 81))) Eol)))))"

text \<open>\<^verbatim>\<open>ITEM_NAME_PATTERN = r"^[a-zA-Z0-9\s\-]+$"\<close>\<close>

definition item_name_class :: "nat \<Rightarrow> bool" where
  "item_name_class c =
     ((97 \<le> c \<and> c \<le> 122) \<or> (65 \<le> c \<and> c \<le> 90) \<or> (48 \<le> c \<and> c \<le> 57) \<or> re_space c \<or> c = 45)"

definition ITEM_NAME_PATTERN :: regex where
  "ITEM_NAME_PATTERN = Cat Bol (Cat (Plus item_name_class) Eol)"

section \<open>validators.py\<close>

definition contains_null_bytes :: "str \<Rightarrow> bool" where
  "contains_null_bytes v = (0 \<in> set v)"

definition contains_control_characters :: "str \<Rightarrow> bool" where
  "contains_control_characters v = list_ex (\<lambda>c. c < 32 \<and> c \<notin> set [10, 9]) v"

definition validate_customer_id :: "pyval \<Rightarrow> error + str" where
  "validate_customer_id customer_id =
     (case customer_id of
        PyStr s \<Rightarrow>
          if contains_null_bytes s then Inl (CustomerIDValidationError IdNullBytes)
          else if contains_control_characters s then Inl (CustomerIDValidationError IdControlChars)
          else if \<not> re_match CUSTOMER_ID_PATTERN s then Inl (CustomerIDValidationError IdBadFormat)
          else Inr s
      | _ \<Rightarrow> Inl (CustomerIDValidationError IdNotString))"

definition validate_quantity :: "pyval \<Rightarrow> error + int" where
  "validate_quantity quantity =
     (case quantity of
        PyInt q \<Rightarrow>
          if q < MIN_QUANTITY then Inl (QuantityValidationError QtyAtLeast)
          else if q > MAX_QUANTITY then Inl (QuantityValidationError QtyCannotExceed)
          else Inr q
      | _ \<Rightarrow> Inl (QuantityValidationError QtyNotInteger))"

definition validate_item_name :: "pyval \<Rightarrow> error + str" where
  "validate_item_name item_name =
     (case item_name of
        PyStr s \<Rightarrow>
          if contains_null_bytes s then Inl (ItemNameValidationError NameNullBytes)
          else if contains_control_characters s then Inl (ItemNameValidationError NameControlChars)
          else if length s < MIN_ITEM_NAME_LENGTH then Inl (ItemNameValidationError NameTooShort)
          else if length s > MAX_ITEM_NAME_LENGTH then Inl (ItemNameValidationError NameTooLong)
          else if \<not> re_match ITEM_NAME_PATTERN s then Inl (ItemNameValidationError NameInvalidChars)
          else Inr s
      | _ \<Rightarrow> Inl (ItemNameValidationError NameNotString))"


subsection \<open>Decimal comparison\<close>

text \<open>
  \<open>a < b\<close> on Decimals compares the numeric values; under the default context, which
  traps \<open>InvalidOperation\<close>, an ordering comparison with a NaN operand raises it.
  \<open>signed_at m s c e\<close> is the value of a finite decimal in units of \<open>10^m\<close>, for
  \<open>m \<le> e\<close>.
\<close>

definition signed_at :: "int \<Rightarrow> bool \<Rightarrow> nat \<Rightarrow> int \<Rightarrow> int" where
  "signed_at m s c e = (if s then - 1 else 1) * int c * 10 ^ nat (e - m)"

fun dec_lt :: "decimal \<Rightarrow> decimal \<Rightarrow> error + bool" where
  "dec_lt (NaN _) _ = Inl InvalidOperation"
| "dec_lt _ (NaN _) = Inl InvalidOperation"
| "dec_lt (Infinity s) (Infinity t) = Inr (s \<and> \<not> t)"
| "dec_lt (Infinity s) (Finite _ _ _) = Inr s"
| "dec_lt (Finite _ _ _) (Infinity t) = Inr (\<not> t)"
| "dec_lt (Finite s c e) (Finite t d f) =
     Inr (signed_at (min e f) s c e < signed_at (min e f) t d f)"

definition dec_gt :: "decimal \<Rightarrow> decimal \<Rightarrow> error + bool" where
  "dec_gt a b = dec_lt b a"

text \<open>\<open>as_tuple().exponent\<close>: an \<open>int\<close> for a finite value, a letter otherwise.\<close>

fun exponent :: "decimal \<Rightarrow> int option" where
  "exponent (Finite _ _ e) = Some e"
| "exponent _ = None"

text \<open>
  \<open>validate_price\<close>. The conversion \<open>Decimal(str(price))\<close> of a value that is not a
  Decimal belongs to the interpreter: \<open>to_decimal price\<close> is its result, \<open>None\<close> when it
  raises \<open>InvalidOperation\<close>, \<open>ValueError\<close> or \<open>TypeError\<close>. The comparisons stand
  outside the \<open>try\<close> block, so what they raise propagates.
\<close>

definition validate_price :: "(pyval \<Rightarrow> decimal option) \<Rightarrow> pyval \<Rightarrow> error + decimal" where
  "validate_price to_decimal price =
     (case (case price of
              PyDecimal d \<Rightarrow> Inr d
            | _ \<Rightarrow> (case to_decimal price of
                      None \<Rightarrow> Inl (PriceValidationError PriceNotDecimal)
                    | Some d \<Rightarrow> Inr d)) of
        Inl e \<Rightarrow> Inl e
      | Inr validated_price \<Rightarrow>
          (case dec_lt validated_price MIN_PRICE of
             Inl e \<Rightarrow> Inl e
           | Inr True \<Rightarrow> Inl (PriceValidationError PriceNegative)
           | Inr False \<Rightarrow>
               (case dec_gt validated_price MAX_PRICE of
                  Inl e \<Rightarrow> Inl e
                | Inr True \<Rightarrow> Inl (PriceValidationError PriceExceeds)
                | Inr False \<Rightarrow>
                    (case exponent validated_price of
                       Some e \<Rightarrow>
                         if e < - PRICE_DECIMAL_PLACES
                         then Inl (PriceValidationError PriceDecimalPlaces)
                         else Inr validated_price
                     | None \<Rightarrow> Inr validated_price))))"

subsection \<open>Decimal arithmetic\<close>

text \<open>
  Arithmetic on Decimals runs in the default context: precision 28, rounding
  \<open>ROUND_HALF_EVEN\<close>, \<open>Emax = 999999\<close>, \<open>Emin = -999999\<close>, no clamping, and the
  signals \<open>InvalidOperation\<close> and \<open>Overflow\<close> trapped (they raise). An operation
  computes the exact result and hands it to \<open>dec_fix\<close>, the module's \<open>_fix\<close>, which
  rounds a coefficient of more than 28 digits and keeps the exponent in range.
\<close>

definition prec :: nat where "prec = 28"
definition Emax :: int where "Emax = 999999"
definition Etiny :: int where "Etiny = - 1000026"
definition Etop :: int where "Etop = 999972"

text \<open>The number of decimal digits of a coefficient: \<open>len(self._int)\<close>.\<close>

fun ndigits :: "nat \<Rightarrow> nat" where
  "ndigits n = (if n < 10 then 1 else Suc (ndigits (n div 10)))"

text \<open>Dropping the last \<open>k\<close> digits of \<open>c\<close>, a half going to the even neighbour.\<close>

definition round_half_even :: "nat \<Rightarrow> nat \<Rightarrow> nat" where
  "round_half_even c k =
     (if k = 0 then c
      else let q = c div 10 ^ k; r = c mod 10 ^ k; half = 5 * 10 ^ (k - 1)
           in if half < r \<or> (r = half \<and> odd q) then q + 1 else q)"

definition dec_fix :: "bool \<Rightarrow> nat \<Rightarrow> int \<Rightarrow> error + decimal" where
  "dec_fix s c e =
     (if c = 0 then Inr (Finite s 0 (min (max e Etiny) Emax))
      else if int (ndigits c) + e - int prec > Etop then Inl Overflow
      else
        let exp_min = max (int (ndigits c) + e - int prec) Etiny in
        if e < exp_min then
          (let coeff = round_half_even c (nat (exp_min - e)) in
           if ndigits coeff > prec then
             (if exp_min + 1 > Etop then Inl Overflow
              else Inr (Finite s (coeff div 10) (exp_min + 1)))
           else Inr (Finite s coeff exp_min))
        else Inr (Finite s c e))"

text \<open>
  \<open>price * quantity\<close> with an \<open>int\<close> on the right, which the module converts to the
  Decimal of exponent 0. A signalling NaN raises, a quiet one is the result, and
  infinity times zero raises.
\<close>

fun dec_mul_int :: "decimal \<Rightarrow> int \<Rightarrow> error + decimal" where
  "dec_mul_int (NaN True) q = Inl InvalidOperation"
| "dec_mul_int (NaN False) q = Inr (NaN False)"
| "dec_mul_int (Infinity s) q =
     (if q = 0 then Inl InvalidOperation else Inr (Infinity (s \<noteq> (q < 0))))"
| "dec_mul_int (Finite s c e) q = dec_fix (s \<noteq> (q < 0)) (c * nat \<bar>q\<bar>) e"

text \<open>
  \<open>a + b\<close>. The exact sum of two finite operands has the smaller of the two exponents; a
  sum that is zero is negative only when both operands are negative zeros.
\<close>

fun dec_add :: "decimal \<Rightarrow> decimal \<Rightarrow> error + decimal" where
  "dec_add (NaN True) _ = Inl InvalidOperation"
| "dec_add _ (NaN True) = Inl InvalidOperation"
| "dec_add (NaN False) _ = Inr (NaN False)"
| "dec_add _ (NaN False) = Inr (NaN False)"
| "dec_add (Infinity s) (Infinity t) = (if s \<noteq> t then Inl InvalidOperation else Inr (Infinity s))"
| "dec_add (Infinity s) (Finite _ _ _) = Inr (Infinity s)"
| "dec_add (Finite _ _ _) (Infinity t) = Inr (Infinity t)"
| "dec_add (Finite s c e) (Finite t d f) =
     (let m = min e f; x = signed_at m s c e + signed_at m t d f
      in dec_fix (if c = 0 \<and> d = 0 then s \<and> t else x < 0) (nat \<bar>x\<bar>) m)"

text \<open>The number a Decimal stands for.\<close>

fun dec_value :: "decimal \<Rightarrow> real" where
  "dec_value (Finite s c e) =
     (if s then - 1 else 1) * real c * (if 0 \<le> e then 10 ^ nat e else 1 / 10 ^ nat (- e))"
| "dec_value _ = 0"

section \<open>catalog.py\<close>

datatype CatalogItem = CatalogItem (name_of: str) (price_of: decimal)

text \<open>The dataclass constructor with its \<open>__post_init__\<close>: the name is validated first.\<close>

definition CatalogItem_new ::
  "(pyval \<Rightarrow> decimal option) \<Rightarrow> pyval \<Rightarrow> pyval \<Rightarrow> error + CatalogItem" where
  "CatalogItem_new to_decimal n p =
     (case validate_item_name n of
        Inl e \<Rightarrow> Inl e
      | Inr n' \<Rightarrow>
          (case validate_price to_decimal p of
             Inl e \<Rightarrow> Inl e
           | Inr p' \<Rightarrow> Inr (CatalogItem n' p')))"

text \<open>
  A Catalog is its \<open>_items\<close> dict, in insertion order. The constructor's dict
  comprehension walks the entries of the argument; the first entry that fails to validate
  aborts the construction.
\<close>

type_synonym Catalog = "(str \<times> CatalogItem) list"

fun Catalog_fill ::
  "(pyval \<Rightarrow> decimal option) \<Rightarrow> (pyval \<times> pyval) list \<Rightarrow> Catalog \<Rightarrow> error + Catalog" where
  "Catalog_fill to_decimal [] acc = Inr acc"
| "Catalog_fill to_decimal ((n, p) # rest) acc =
     (case CatalogItem_new to_decimal n p of
        Inl e \<Rightarrow> Inl e
      | Inr item \<Rightarrow> Catalog_fill to_decimal rest (AList.update (name_of item) item acc))"

definition Catalog_init ::
  "(pyval \<Rightarrow> decimal option) \<Rightarrow> (pyval \<times> pyval) list \<Rightarrow> error + Catalog" where
  "Catalog_init to_decimal entries = Catalog_fill to_decimal entries []"

definition has_item :: "Catalog \<Rightarrow> str \<Rightarrow> bool" where
  "has_item self item_name = (map_of self item_name \<noteq> None)"

definition get_price :: "Catalog \<Rightarrow> str \<Rightarrow> decimal option" where
  "get_price self item_name =
     (case map_of self item_name of None \<Rightarrow> None | Some item \<Rightarrow> Some (price_of item))"

definition get_all_items :: "Catalog \<Rightarrow> (str \<times> decimal) list" where
  "get_all_items self = map (\<lambda>(n, item). (n, price_of item)) self"

section \<open>cart.py\<close>

text \<open>
  The cart's fields. \<open>items\<close> is the \<open>_items\<close> dict in insertion order: assigning to a
  key it holds keeps the key's place, a new key goes last (\<open>AList.update\<close>), \<open>del\<close>
  removes it (\<open>AList.delete\<close>).
\<close>

record ShoppingCart =
  cart_id :: uuid
  customer_id :: str
  catalog :: Catalog
  items :: "(str \<times> int) list"

text \<open>What a caller passes as the constructor's second argument.\<close>

datatype catalog_arg = IsCatalog Catalog | NotCatalog pyval

text \<open>\<open>__init__\<close>; \<open>fresh\<close> is the value \<open>uuid.uuid4()\<close> returns.\<close>

definition ShoppingCart_init :: "uuid \<Rightarrow> pyval \<Rightarrow> catalog_arg \<Rightarrow> error + ShoppingCart" where
  "ShoppingCart_init fresh cid cat =
     (case cat of
        NotCatalog _ \<Rightarrow> Inl TypeError
      | IsCatalog c \<Rightarrow>
          (case validate_customer_id cid of
             Inl e \<Rightarrow> Inl e
           | Inr v \<Rightarrow> Inr \<lparr>cart_id = fresh, customer_id = v, catalog = c, items = []\<rparr>))"

text \<open>
  A mutating method returns the exception it raised, if any, and the cart as the call
  left it.
\<close>

definition add_item :: "ShoppingCart \<Rightarrow> pyval \<Rightarrow> pyval \<Rightarrow> error option \<times> ShoppingCart" where
  "add_item self item_name quantity =
     (case validate_item_name item_name of
        Inl e \<Rightarrow> (Some e, self)
      | Inr n \<Rightarrow>
          (case validate_quantity quantity of
             Inl e \<Rightarrow> (Some e, self)
           | Inr q \<Rightarrow>
               if \<not> has_item (catalog self) n then (Some ItemNotInCatalogError, self)
               else
                 (case map_of (items self) n of
                    Some q0 \<Rightarrow>
                      (case validate_quantity (PyInt (q0 + q)) of
                         Inl e \<Rightarrow> (Some e, self)
                       | Inr new_quantity \<Rightarrow>
                           (None, self\<lparr>items := AList.update n new_quantity (items self)\<rparr>))
                  | None \<Rightarrow> (None, self\<lparr>items := AList.update n q (items self)\<rparr>))))"

definition update_item_quantity ::
  "ShoppingCart \<Rightarrow> pyval \<Rightarrow> pyval \<Rightarrow> error option \<times> ShoppingCart" where
  "update_item_quantity self item_name quantity =
     (case validate_item_name item_name of
        Inl e \<Rightarrow> (Some e, self)
      | Inr n \<Rightarrow>
          (case validate_quantity quantity of
             Inl e \<Rightarrow> (Some e, self)
           | Inr q \<Rightarrow>
               if map_of (items self) n = None then (Some ItemNotInCartError, self)
               else (None, self\<lparr>items := AList.update n q (items self)\<rparr>)))"

definition remove_item :: "ShoppingCart \<Rightarrow> pyval \<Rightarrow> error option \<times> ShoppingCart" where
  "remove_item self item_name =
     (case validate_item_name item_name of
        Inl e \<Rightarrow> (Some e, self)
      | Inr n \<Rightarrow>
          if map_of (items self) n = None then (Some ItemNotInCartError, self)
          else (None, self\<lparr>items := AList.delete n (items self)\<rparr>))"

text \<open>
  \<open>get_total\<close>: the loop over \<open>self._items.items()\<close>, in insertion order, with the
  running total \<open>running\<close>.
\<close>

fun get_total_loop :: "Catalog \<Rightarrow> (str \<times> int) list \<Rightarrow> decimal \<Rightarrow> error + decimal" where
  "get_total_loop cat [] running = Inr running"
| "get_total_loop cat ((item_name, quantity) # rest) running =
     (case get_price cat item_name of
        None \<Rightarrow> get_total_loop cat rest running
      | Some price \<Rightarrow>
          (case dec_mul_int price quantity of
             Inl e \<Rightarrow> Inl e
           | Inr product \<Rightarrow>
               (case dec_add running product of
                  Inl e \<Rightarrow> Inl e
                | Inr running' \<Rightarrow> get_total_loop cat rest running')))"

definition get_total :: "ShoppingCart \<Rightarrow> error + decimal" where
  "get_total self = get_total_loop (catalog self) (items self) (Finite False 0 (- 2))"

text \<open>
  The carts a caller can reach: a constructed cart, and a cart after a call of a mutating
  method that returned normally (a call that raised left the cart as it was).
\<close>

inductive reachable :: "ShoppingCart \<Rightarrow> bool" where
  constructed: "ShoppingCart_init fresh cid cat = Inr c \<Longrightarrow> reachable c"
| added: "reachable c \<Longrightarrow> add_item c n q = (None, c') \<Longrightarrow> reachable c'"
| updated: "reachable c \<Longrightarrow> update_item_quantity c n q = (None, c') \<Longrightarrow> reachable c'"
| removed: "reachable c \<Longrightarrow> remove_item c n = (None, c') \<Longrightarrow> reachable c'"

text \<open>The invariant of the item mapping.\<close>

definition cart_inv :: "ShoppingCart \<Rightarrow> bool" where
  "cart_inv c =
     (distinct (map fst (items c)) \<and>
      (\<forall>(n, q) \<in> set (items c).
         validate_item_name (PyStr n) = Inr n \<and> has_item (catalog c) n \<and> 1 \<le> q \<and> q \<le> 10000))"

section \<open>Prices in hundredths\<close>

text \<open>
  What \<open>validate_price\<close> lets through: a finite decimal with an exponent of at least
  \<open>-2\<close> that is not negative (a negative zero is not) and at most 999999.99. \<open>cents\<close>
  is such a price in hundredths.
\<close>

fun price_ok :: "decimal \<Rightarrow> bool" where
  "price_ok (Finite s c e) = (- 2 \<le> e \<and> (c = 0 \<or> \<not> s) \<and> c * 10 ^ nat (e + 2) \<le> 99999999)"
| "price_ok _ = False"

fun cents :: "decimal \<Rightarrow> nat" where
  "cents (Finite s c e) = c * 10 ^ nat (e + 2)"
| "cents _ = 0"

text \<open>The total of a mapping over a catalog, in hundredths: a name the catalog lacks adds 0.\<close>

definition total_cents :: "Catalog \<Rightarrow> (str \<times> int) list \<Rightarrow> nat" where
  "total_cents cat its =
     sum_list (map (\<lambda>(n, q). case get_price cat n of None \<Rightarrow> 0 | Some p \<Rightarrow> cents p * nat q) its)"

text \<open>The same total as a number: the sum of price times quantity.\<close>

definition exact_total :: "Catalog \<Rightarrow> (str \<times> int) list \<Rightarrow> real" where
  "exact_total cat its =
     sum_list (map (\<lambda>(n, q). case get_price cat n of
                                 None \<Rightarrow> 0
                               | Some p \<Rightarrow> dec_value p * real_of_int q) its)"

text \<open>A catalog all of whose prices are such, and a mapping all of whose quantities are in range.\<close>

definition catalog_ok :: "Catalog \<Rightarrow> bool" where
  "catalog_ok cat = (\<forall>(n, item) \<in> set cat. price_ok (price_of item))"

definition quantities_ok :: "(str \<times> int) list \<Rightarrow> bool" where
  "quantities_ok its = (\<forall>(n, q) \<in> set its. 1 \<le> q \<and> q \<le> 10000)"

section \<open>The scenarios of the test suite\<close>

text \<open>The catalog \<^verbatim>\<open>Catalog({"Widget": Decimal("10.99")})\<close> and a cart on it.\<close>

definition widget :: str where
  "widget = py ''Widget''"

definition widget_catalog :: Catalog where
  "widget_catalog = [(widget, CatalogItem widget (Finite False 1099 (- 2)))]"

definition abc_id :: str where
  "abc_id = py ''ABC12345XY-A''"

definition empty_cart :: ShoppingCart where
  "empty_cart = \<lparr>cart_id = 0, customer_id = abc_id, catalog = widget_catalog, items = []\<rparr>"

definition widget_cart :: "int \<Rightarrow> ShoppingCart" where
  "widget_cart q = empty_cart\<lparr>items := [(widget, q)]\<rparr>"

section \<open>The specification's wording of the item-name rule\<close>

text \<open>
  The specification's sentence on \<open>validate_item_name\<close>, word for word: text free of null
  bytes and ASCII control characters, of length 1 to 100, each character an ASCII letter,
  a digit, a space or a hyphen.
\<close>

definition spec_item_char :: "nat \<Rightarrow> bool" where
  "spec_item_char c =
     ((97 \<le> c \<and> c \<le> 122) \<or> (65 \<le> c \<and> c \<le> 90) \<or> (48 \<le> c \<and> c \<le> 57) \<or> c = 32 \<or> c = 45)"

definition spec_item_name :: "str \<Rightarrow> bool" where
  "spec_item_name s =
     (0 \<notin> set s \<and> \<not> list_ex (\<lambda>c. c < 32) s \<and> 1 \<le> length s \<and> length s \<le> 100
      \<and> list_all spec_item_char s)"

text \<open>The same rule with the tab and the newline, which the code lets through.\<close>

definition code_item_char :: "nat \<Rightarrow> bool" where
  "code_item_char c = (spec_item_char c \<or> c = 9 \<or> c = 10)"

text \<open>Whitespace beyond ASCII, which \<open>\s\<close> matches as well.\<close>

definition wide_space :: "nat \<Rightarrow> bool" where
  "wide_space c = (128 \<le> c \<and> re_space c)"

section \<open>Attribute assignment on a cart\<close>

text \<open>
  For \<open>__setattr__\<close> a cart is its instance dictionary, from attribute names to values.
  \<open>instance_dict c\<close> is the dictionary as \<open>__init__\<close> builds it and the methods keep
  it: the four private fields.
\<close>

datatype attr =
    UuidV uuid
  | StrV str
  | CatalogV Catalog
  | DictV "(str \<times> int) list"
  | OtherV pyval

type_synonym object_dict = "str \<rightharpoonup> attr"

definition instance_dict :: "ShoppingCart \<Rightarrow> object_dict" where
  "instance_dict c =
     [py ''_cart_id'' \<mapsto> UuidV (cart_id c),
      py ''_customer_id'' \<mapsto> StrV (customer_id c),
      py ''_catalog'' \<mapsto> CatalogV (catalog c),
      py ''_items'' \<mapsto> DictV (items c)]"

text \<open>The class attribute \<^verbatim>\<open>_IMMUTABLE_FIELDS = {"_cart_id", "_customer_id"}\<close>.\<close>

definition IMMUTABLE_FIELDS :: "str set" where
  "IMMUTABLE_FIELDS = {py ''_cart_id'', py ''_customer_id''}"

text \<open>
  The class's properties \<open>cart_id\<close> and \<open>customer_id\<close> have a getter only.
  \<open>object.__setattr__\<close> finds a property of the class before it looks at the instance,
  and a property without a setter raises \<open>AttributeError\<close>; any other name is stored
  in the instance dictionary. (The interpreter's own slots \<open>__class__\<close> and \<open>__dict__\<close>
  are not modelled.)
\<close>

definition properties :: "str set" where
  "properties = {py ''cart_id'', py ''customer_id''}"

definition object_setattr :: "object_dict \<Rightarrow> str \<Rightarrow> attr \<Rightarrow> error option \<times> object_dict" where
  "object_setattr self name v =
     (if name \<in> properties then (Some AttributeError, self) else (None, self(name \<mapsto> v)))"

text \<open>\<open>name.lstrip('_')\<close>\<close>

definition lstrip_underscore :: "str \<Rightarrow> str" where
  "lstrip_underscore name = dropWhile (\<lambda>c. c = 95) name"

text \<open>
  \<open>ShoppingCart.__setattr__\<close>. \<open>self._IMMUTABLE_FIELDS\<close> is the class attribute unless
  the instance dictionary holds an entry of that name; \<open>py_in name v\<close> is the interpreter's
  \<open>name in v\<close> on such an entry.
\<close>

definition setattr ::
  "(str \<Rightarrow> attr \<Rightarrow> error + bool) \<Rightarrow> object_dict \<Rightarrow> str \<Rightarrow> attr \<Rightarrow> error option \<times> object_dict" where
  "setattr py_in self name v =
     (case (case self (py ''_IMMUTABLE_FIELDS'') of
              None \<Rightarrow> Inr (name \<in> IMMUTABLE_FIELDS)
            | Some shadow \<Rightarrow> py_in name shadow) of
        Inl e \<Rightarrow> (Some e, self)
      | Inr True \<Rightarrow> (Some (ImmutabilityViolationError (lstrip_underscore name)), self)
      | Inr False \<Rightarrow> object_setattr self name v)"

text \<open>The getters of the two properties: \<open>return self._cart_id\<close>, \<open>return self._customer_id\<close>.\<close>

definition get_cart_id :: "object_dict \<Rightarrow> attr option" where
  "get_cart_id self = self (py ''_cart_id'')"

definition get_customer_id :: "object_dict \<Rightarrow> attr option" where
  "get_customer_id self = self (py ''_customer_id'')"

text \<open>
  A cart whose mapping holds a name that its catalog lacks. The methods never
  build it; \<open>get_total\<close> provides for it.
\<close>

definition stray_cart :: ShoppingCart where
  "stray_cart = empty_cart\<lparr>items := [(widget, 2), (py ''Fake'', 3)]\<rparr>"

section \<open>Objects in a store\<close>

text \<open>
  For the copies that the accessors return, dicts are objects in a store: an address
  holds a dict, a variable or a field holds an address, and two names for one address see
  each other's writes. A cart holds the address of its \<open>_items\<close> dict and, through its
  catalog, the address of the catalog's \<open>_items\<close> dict. New objects get the next free
  address.
\<close>

type_synonym addr = nat

datatype dict =
    QtyDict "(str \<times> int) list"
  | ItemDict "(str \<times> CatalogItem) list"
  | PriceDict "(str \<times> decimal) list"
  | OtherDict "(pyval \<times> pyval) list"

record store =
  dicts :: "addr \<rightharpoonup> dict"
  next_addr :: addr

record cart_object =
  obj_cart_id :: uuid
  obj_customer_id :: str
  catalog_at :: addr
  items_at :: addr

definition alloc :: "store \<Rightarrow> dict \<Rightarrow> addr \<times> store" where
  "alloc st d =
     (next_addr st, st\<lparr>dicts := (dicts st)(next_addr st \<mapsto> d), next_addr := Suc (next_addr st)\<rparr>)"

text \<open>
  \<open>copy.deepcopy\<close> of a dict whose keys and values are strings, integers and Decimals
  (immutable, so shared as they are): a new dict object with the same entries.
\<close>

definition deepcopy :: "store \<Rightarrow> addr \<Rightarrow> (addr \<times> store) option" where
  "deepcopy st a = (case dicts st a of None \<Rightarrow> None | Some d \<Rightarrow> Some (alloc st d))"

text \<open>The cart as a value, read off the store; \<open>None\<close> when an address holds no such dict.\<close>

definition view :: "store \<Rightarrow> cart_object \<Rightarrow> ShoppingCart option" where
  "view st c =
     (case dicts st (catalog_at c) of
        Some (ItemDict cat) \<Rightarrow>
          (case dicts st (items_at c) of
             Some (QtyDict its) \<Rightarrow>
               Some \<lparr>cart_id = obj_cart_id c, customer_id = obj_customer_id c,
                     catalog = cat, items = its\<rparr>
           | _ \<Rightarrow> None)
      | _ \<Rightarrow> None)"

text \<open>
  The public methods of a cart and of its catalog, and what a call gives back: an
  exception, nothing, a number, or a reference to a dict (with the dict's entries at that
  moment).
\<close>

datatype call =
    Add_item pyval pyval
  | Update_item_quantity pyval pyval
  | Remove_item pyval
  | Get_items
  | Get_total
  | Has_item str
  | Get_price str
  | Get_all_items

datatype result =
    Raises error
  | Returns_none
  | Returns_dict addr dict
  | Returns_decimal decimal
  | Returns_bool bool
  | Returns_price "decimal option"

text \<open>A mutating method writes the cart's own dict, in place, when it returns normally.\<close>

definition mutating ::
  "cart_object \<Rightarrow> store \<Rightarrow> (ShoppingCart \<Rightarrow> error option \<times> ShoppingCart) \<Rightarrow> (result \<times> store) option" where
  "mutating c st method =
     (case view st c of
        None \<Rightarrow> None
      | Some v \<Rightarrow>
          (case method v of
             (Some e, v') \<Rightarrow> Some (Raises e, st)
           | (None, v') \<Rightarrow>
               Some (Returns_none, st\<lparr>dicts := (dicts st)(items_at c \<mapsto> QtyDict (items v'))\<rparr>)))"

text \<open>
  \<open>get_items\<close> is \<open>deepcopy(self._items)\<close>; \<open>get_all_items\<close> builds the dict of
  prices by a comprehension, a new object, and returns the \<open>deepcopy\<close> of that.
\<close>

fun run :: "cart_object \<Rightarrow> store \<Rightarrow> call \<Rightarrow> (result \<times> store) option" where
  "run c st (Add_item n q) = mutating c st (\<lambda>v. add_item v n q)"
| "run c st (Update_item_quantity n q) = mutating c st (\<lambda>v. update_item_quantity v n q)"
| "run c st (Remove_item n) = mutating c st (\<lambda>v. remove_item v n)"
| "run c st Get_items =
     (case deepcopy st (items_at c) of
        None \<Rightarrow> None
      | Some (a, st') \<Rightarrow>
          (case dicts st' a of None \<Rightarrow> None | Some d \<Rightarrow> Some (Returns_dict a d, st')))"
| "run c st Get_total =
     (case view st c of
        None \<Rightarrow> None
      | Some v \<Rightarrow>
          Some (case get_total v of Inl e \<Rightarrow> Raises e | Inr t \<Rightarrow> Returns_decimal t, st))"
| "run c st (Has_item n) =
     (case dicts st (catalog_at c) of
        Some (ItemDict cat) \<Rightarrow> Some (Returns_bool (has_item cat n), st)
      | _ \<Rightarrow> None)"
| "run c st (Get_price n) =
     (case dicts st (catalog_at c) of
        Some (ItemDict cat) \<Rightarrow> Some (Returns_price (get_price cat n), st)
      | _ \<Rightarrow> None)"
| "run c st Get_all_items =
     (case dicts st (catalog_at c) of
        Some (ItemDict cat) \<Rightarrow>
          (case alloc st (PriceDict (get_all_items cat)) of
             (b, st1) \<Rightarrow>
               (case deepcopy st1 b of
                  None \<Rightarrow> None
                | Some (a, st') \<Rightarrow>
                    (case dicts st' a of None \<Rightarrow> None | Some d \<Rightarrow> Some (Returns_dict a d, st'))))
      | _ \<Rightarrow> None)"

text \<open>A sequence of calls, with the results in order.\<close>

fun run_all :: "cart_object \<Rightarrow> store \<Rightarrow> call list \<Rightarrow> (result list \<times> store) option" where
  "run_all c st [] = Some ([], st)"
| "run_all c st (x # xs) =
     (case run c st x of
        None \<Rightarrow> None
      | Some (r, st') \<Rightarrow>
          (case run_all c st' xs of None \<Rightarrow> None | Some (rs, st'') \<Rightarrow> Some (r # rs, st'')))"

text \<open>
  What a caller can do to a dict it holds a reference to: whatever the statements, the
  object at that address ends up with some entries, or is gone.
\<close>

definition poke :: "addr \<Rightarrow> dict option \<Rightarrow> store \<Rightarrow> store" where
  "poke a x st = st\<lparr>dicts := (dicts st)(a := x)\<rparr>"

text \<open>The store of the scenario: the Widget catalog at 0, a cart's mapping at 1.\<close>

definition widget_store :: store where
  "widget_store =
     \<lparr>dicts = [0 \<mapsto> ItemDict widget_catalog, 1 \<mapsto> QtyDict [(widget, 2)]], next_addr = 2\<rparr>"

definition widget_object :: cart_object where
  "widget_object = \<lparr>obj_cart_id = 0, obj_customer_id = abc_id, catalog_at = 0, items_at = 1\<rparr>"

text \<open>The store after one \<open>get_items\<close>: the copy is the object at 2.\<close>

definition copied_store :: store where
  "copied_store = snd (alloc widget_store (QtyDict [(widget, 2)]))"

text \<open>
  The store after one \<open>get_all_items\<close> on the scenario: the comprehension's dict is the
  object at 2, its copy, which the caller gets, the object at 3.
\<close>

definition widget_prices :: dict where
  "widget_prices = PriceDict [(widget, Finite False 1099 (- 2))]"

definition priced_store :: store where
  "priced_store = snd (alloc (snd (alloc widget_store widget_prices)) widget_prices)"

section \<open>Regular expressions: what the two patterns accept\<close>

lemma rems_Cat_nonempty:
  "rems (Cat r1 r2) st \<noteq> [] \<longleftrightarrow> (\<exists>st' \<in> set (rems r1 st). rems r2 st' \<noteq> [])"
  by (auto simp: concat_eq_Nil_conv)

lemma set_rems_Plus:
  "set (rems (Plus p) (i, s)) = {(i + n, drop n s) | n. 1 \<le> n \<and> n \<le> length (takeWhile p s)}"
  by (auto simp: image_iff Bex_def)

lemma rems_plus_eol:
  "rems (Cat (Plus p) Eol) (i, s) \<noteq> [] \<longleftrightarrow>
     (\<exists>n. 1 \<le> n \<and> n \<le> length (takeWhile p s) \<and> (drop n s = [] \<or> drop n s = [10]))"
proof -
  have "rems (Cat (Plus p) Eol) (i, s) \<noteq> [] \<longleftrightarrow>
     (\<exists>n. 1 \<le> n \<and> n \<le> length (takeWhile p s) \<and> rems Eol (i + n, drop n s) \<noteq> [])"
    unfolding rems_Cat_nonempty set_rems_Plus by blast
  moreover have "rems Eol (i + n, drop n s) \<noteq> [] \<longleftrightarrow> (drop n s = [] \<or> drop n s = [10])" for n
    by simp
  ultimately show ?thesis by (simp only:)
qed

lemma take_takeWhile_all:
  assumes "n \<le> length (takeWhile p s)"
  shows "list_all p (take n s)"
proof -
  have "s = takeWhile p s @ dropWhile p s" by simp
  then have "take n s = take n (takeWhile p s)"
    using assms by (metis append_Nil2 diff_is_0_eq take_0 take_append)
  then show ?thesis
    by (metis in_set_takeD list_all_iff set_takeWhileD)
qed

text \<open>
  The item-name pattern accepts the non-empty strings over its class: the class holds the
  newline, so the newline that \<open>$\<close> tolerates at the end adds nothing.
\<close>

lemma item_name_match:
  "re_match ITEM_NAME_PATTERN s \<longleftrightarrow> s \<noteq> [] \<and> list_all item_name_class s"
proof -
  have nl: "item_name_class 10" by (simp add: item_name_class_def re_space_def)
  have "re_match ITEM_NAME_PATTERN s \<longleftrightarrow> rems (Cat (Plus item_name_class) Eol) (0, s) \<noteq> []"
    by (simp add: re_match_def ITEM_NAME_PATTERN_def)
  also have "\<dots> \<longleftrightarrow> s \<noteq> [] \<and> list_all item_name_class s"
  proof
    assume "rems (Cat (Plus item_name_class) Eol) (0, s) \<noteq> []"
    then obtain n where n: "1 \<le> n" "n \<le> length (takeWhile item_name_class s)"
      and d: "drop n s = [] \<or> drop n s = [10]"
      unfolding rems_plus_eol by blast
    have pre: "list_all item_name_class (take n s)"
      using n(2) by (rule take_takeWhile_all)
    have "list_all item_name_class (drop n s)" using d nl by auto
    with pre have "list_all item_name_class (take n s @ drop n s)"
      by (simp only: list_all_append)
    then have "list_all item_name_class s" by simp
    moreover have "s \<noteq> []" using n by auto
    ultimately show "s \<noteq> [] \<and> list_all item_name_class s" by simp
  next
    assume a: "s \<noteq> [] \<and> list_all item_name_class s"
    then have "takeWhile item_name_class s = s"
      by (simp add: list_all_iff)
    then have "length s \<le> length (takeWhile item_name_class s)"
      by (simp only: order_refl)
    moreover from a have "1 \<le> length s" by (cases s) auto
    ultimately show "rems (Cat (Plus item_name_class) Eol) (0, s) \<noteq> []"
      unfolding rems_plus_eol by (intro exI[of _ "length s"]) simp
  qed
  finally show ?thesis .
qed

lemma times_numeral: "times (numeral k) r = Cat r (times (pred_numeral k) r)"
  by (simp add: numeral_eq_Suc)

lemmas customer_id_eval =
  validate_customer_id_def contains_null_bytes_def contains_control_characters_def
  re_match_def CUSTOMER_ID_PATTERN_def upper_def lit_def re_digit_def nd_blocks_def times_numeral

section \<open>The validators\<close>

lemma validate_quantity_Inr:
  "validate_quantity v = Inr q \<longleftrightarrow> v = PyInt q \<and> 1 \<le> q \<and> q \<le> 10000"
  by (auto simp: validate_quantity_def MIN_QUANTITY_def MAX_QUANTITY_def split: pyval.splits)

lemma validate_item_name_Inr_same:
  "validate_item_name v = Inr n \<Longrightarrow> v = PyStr n"
  by (auto simp: validate_item_name_def split: pyval.splits if_splits)

lemma validate_item_name_PyStr:
  "validate_item_name (PyStr s) = Inr s \<longleftrightarrow>
     0 \<notin> set s \<and> \<not> contains_control_characters s \<and> 1 \<le> length s \<and> length s \<le> 100
     \<and> list_all item_name_class s"
  by (auto simp: validate_item_name_def contains_null_bytes_def MIN_ITEM_NAME_LENGTH_def
      MAX_ITEM_NAME_LENGTH_def item_name_match Suc_le_eq)

lemma valid_widget: "validate_item_name (PyStr widget) = Inr widget"
  by (simp add: validate_item_name_PyStr widget_def contains_control_characters_def
      item_name_class_def)

section \<open>The cart's invariant\<close>

lemma set_updateD:
  "(k', v') \<in> set (AList.update k v al) \<Longrightarrow> (k', v') = (k, v) \<or> (k', v') \<in> set al"
  by (induction al) (auto split: if_splits)

lemma set_deleteD: "(k', v') \<in> set (AList.delete k al) \<Longrightarrow> (k', v') \<in> set al"
  by (auto simp: AList.delete_eq)

lemma add_item_inv: "cart_inv c \<Longrightarrow> cart_inv (snd (add_item c n q))"
  unfolding add_item_def cart_inv_def
  by (auto simp: validate_quantity_Inr distinct_update split: sum.splits option.splits
      dest!: set_updateD dest: validate_item_name_Inr_same)

lemma update_item_quantity_inv: "cart_inv c \<Longrightarrow> cart_inv (snd (update_item_quantity c n q))"
  unfolding update_item_quantity_def cart_inv_def
  by (auto simp: validate_quantity_Inr distinct_update has_item_def split: sum.splits option.splits
      dest!: set_updateD dest: validate_item_name_Inr_same map_of_SomeD)

lemma remove_item_inv: "cart_inv c \<Longrightarrow> cart_inv (snd (remove_item c n))"
  unfolding remove_item_def cart_inv_def
  by (auto simp: distinct_delete split: sum.splits option.splits dest!: set_deleteD)

lemma init_inv: "ShoppingCart_init fresh cid cat = Inr c \<Longrightarrow> cart_inv c"
  by (auto simp: ShoppingCart_init_def cart_inv_def split: catalog_arg.splits sum.splits)

lemma reachable_inv: "reachable c \<Longrightarrow> cart_inv c"
proof (induction rule: reachable.induct)
  case (constructed fresh cid cat c)
  then show ?case by (rule init_inv)
next
  case (added c n q c')
  from add_item_inv[OF added.IH, of n q] added.hyps(2) show ?case by simp
next
  case (updated c n q c')
  from update_item_quantity_inv[OF updated.IH, of n q] updated.hyps(2) show ?case by simp
next
  case (removed c n c')
  from remove_item_inv[OF removed.IH, of n] removed.hyps(2) show ?case by simp
qed

subsection \<open>The scenario carts are reachable\<close>

lemma valid_customer: "validate_customer_id (PyStr abc_id) = Inr abc_id"
  by (simp add: customer_id_eval abc_id_def)

lemma has_widget: "has_item widget_catalog widget"
  by (simp add: has_item_def widget_catalog_def)

lemma fields_empty_cart [simp]: "catalog empty_cart = widget_catalog" "items empty_cart = []"
  by (simp_all add: empty_cart_def)

lemma init_widget:
  "ShoppingCart_init 0 (PyStr abc_id) (IsCatalog widget_catalog) = Inr empty_cart"
  by (simp add: ShoppingCart_init_def valid_customer empty_cart_def)

lemma add_widget_first:
  "1 \<le> q \<Longrightarrow> q \<le> 10000 \<Longrightarrow>
   add_item empty_cart (PyStr widget) (PyInt q) = (None, widget_cart q)"
  by (simp add: add_item_def valid_widget validate_quantity_def MIN_QUANTITY_def MAX_QUANTITY_def
      has_widget widget_cart_def)

lemma reachable_widget_cart: "1 \<le> q \<Longrightarrow> q \<le> 10000 \<Longrightarrow> reachable (widget_cart q)"
  by (rule added[OF constructed[OF init_widget] add_widget_first])

text \<open>
  Claim C1. Every cart reached from the constructor by calls of \<open>add_item\<close>,
  \<open>update_item_quantity\<close> and \<open>remove_item\<close> satisfies the invariant: each key of the
  item mapping is a valid item name that the cart's catalog holds, and each quantity lies
  between 1 and 10000. Each of the three methods keeps the invariant, whether the call
  returns or raises.
\<close>

theorem cart_invariant:
  "(reachable c \<longrightarrow> cart_inv c) \<and>
   (cart_inv c \<longrightarrow>
      cart_inv (snd (add_item c n q)) \<and>
      cart_inv (snd (update_item_quantity c n q)) \<and>
      cart_inv (snd (remove_item c n)))"
  using reachable_inv add_item_inv update_item_quantity_inv remove_item_inv by blast

theorem cart_invariant_witness:
  "reachable (widget_cart 2) \<and> cart_inv (widget_cart 2) \<and>
   cart_inv (snd (add_item (widget_cart 2) (PyStr widget) (PyInt 3))) \<and>
   cart_inv (snd (update_item_quantity (widget_cart 2) (PyStr widget) (PyInt 3))) \<and>
   cart_inv (snd (remove_item (widget_cart 2) (PyStr widget)))"
proof -
  have r: "reachable (widget_cart 2)" by (rule reachable_widget_cart) simp_all
  with cart_invariant[of "widget_cart 2" "PyStr widget" "PyInt 3"] show ?thesis by blast
qed

text \<open>
  Claim C2. In a reachable cart that holds \<open>n\<close> with quantity \<open>q0\<close>, adding a valid
  quantity \<open>q\<close> with \<open>q0 + q > 10000\<close> raises the quantity error "cannot exceed" and
  leaves the cart as it was; with \<open>q0 + q \<le> 10000\<close> the call returns and the stored
  quantity is \<open>q0 + q\<close>.
\<close>

theorem add_item_existing:
  assumes "reachable c" and "map_of (items c) n = Some q0" and "validate_quantity qv = Inr q"
  shows "(q0 + q > 10000 \<longrightarrow>
            add_item c (PyStr n) qv = (Some (QuantityValidationError QtyCannotExceed), c)) \<and>
         (q0 + q \<le> 10000 \<longrightarrow>
            add_item c (PyStr n) qv = (None, c\<lparr>items := AList.update n (q0 + q) (items c)\<rparr>) \<and>
            map_of (AList.update n (q0 + q) (items c)) n = Some (q0 + q))"
proof -
  from assms(1) have inv: "cart_inv c" by (rule reachable_inv)
  from assms(2) have mem: "(n, q0) \<in> set (items c)" by (rule map_of_SomeD)
  with inv have v: "validate_item_name (PyStr n) = Inr n" and h: "has_item (catalog c) n"
    and q0: "1 \<le> q0"
    unfolding cart_inv_def by auto
  from assms(3) have q: "qv = PyInt q" "1 \<le> q" "q \<le> 10000"
    by (simp_all add: validate_quantity_Inr)
  show ?thesis
    using v h q0 q assms(2)
    by (simp add: add_item_def validate_quantity_def MIN_QUANTITY_def MAX_QUANTITY_def update_conv')
qed

text \<open>The test's case: 9999 in the cart, 2 more are refused; 9000 and 1000 more give 10000.\<close>

theorem add_item_existing_witness:
  "reachable (widget_cart 9999) \<and>
   add_item (widget_cart 9999) (PyStr widget) (PyInt 2) =
     (Some (QuantityValidationError QtyCannotExceed), widget_cart 9999) \<and>
   map_of (items (widget_cart 9999)) widget = Some 9999 \<and>
   add_item (widget_cart 9000) (PyStr widget) (PyInt 1000) = (None, widget_cart 10000)"
proof -
  have r1: "reachable (widget_cart 9999)" by (rule reachable_widget_cart) simp_all
  have r2: "reachable (widget_cart 9000)" by (rule reachable_widget_cart) simp_all
  have m1: "map_of (items (widget_cart 9999)) widget = Some 9999" by (simp add: widget_cart_def)
  have m2: "map_of (items (widget_cart 9000)) widget = Some 9000" by (simp add: widget_cart_def)
  have v1: "validate_quantity (PyInt 2) = Inr 2" by (simp add: validate_quantity_Inr)
  have v2: "validate_quantity (PyInt 1000) = Inr 1000" by (simp add: validate_quantity_Inr)
  from add_item_existing[OF r1 m1 v1] add_item_existing[OF r2 m2 v2] r1 m1
  show ?thesis by (simp add: widget_cart_def)
qed

text \<open>
  Claim C9. The constructor checks the catalog argument first: with an argument that
  is not a Catalog it raises \<open>TypeError\<close> whatever the customer id is, and only with a
  Catalog does the outcome depend on the validation of the customer id.
\<close>

theorem init_checks_catalog_first:
  "ShoppingCart_init fresh cid (NotCatalog v) = Inl TypeError \<and>
   ShoppingCart_init fresh cid (IsCatalog cat) =
     (case validate_customer_id cid of
        Inl e \<Rightarrow> Inl e
      | Inr i \<Rightarrow> Inr \<lparr>cart_id = fresh, customer_id = i, catalog = cat, items = []\<rparr>)"
  by (simp add: ShoppingCart_init_def)

section \<open>Item names, customer ids and prices\<close>

lemma re_space_narrow:
  "\<not> wide_space c \<Longrightarrow> re_space c \<longleftrightarrow> (9 \<le> c \<and> c \<le> 13) \<or> (28 \<le> c \<and> c \<le> 32)"
  unfolding wide_space_def re_space_def by auto

lemma code_item_char_iff:
  assumes "\<not> wide_space c"
  shows "(c \<noteq> 0 \<and> \<not> (c < 32 \<and> c \<notin> set [10, 9]) \<and> item_name_class c) \<longleftrightarrow> code_item_char c"
  unfolding code_item_char_def spec_item_char_def item_name_class_def re_space_narrow[OF assms]
  by auto

lemma validate_item_name_ascii:
  assumes "list_all (\<lambda>c. \<not> wide_space c) s"
  shows "validate_item_name (PyStr s) = Inr s \<longleftrightarrow>
           1 \<le> length s \<and> length s \<le> 100 \<and> list_all code_item_char s"
proof -
  have "(0 \<notin> set s \<and> \<not> contains_control_characters s \<and> list_all item_name_class s)
        \<longleftrightarrow> list_all (\<lambda>c. c \<noteq> 0 \<and> \<not> (c < 32 \<and> c \<notin> set [10, 9]) \<and> item_name_class c) s"
    unfolding contains_control_characters_def list_all_iff list_ex_iff by auto
  also have "\<dots> \<longleftrightarrow> list_all code_item_char s"
    using assms code_item_char_iff unfolding list_all_iff by blast
  finally show ?thesis
    unfolding validate_item_name_PyStr by blast
qed

lemma validate_item_name_kinds:
  "(\<exists>s. v = PyStr s \<and> validate_item_name v = Inr s) \<or>
   (\<exists>m. validate_item_name v = Inl (ItemNameValidationError m))"
  by (auto simp: validate_item_name_def split: pyval.splits)

text \<open>
  Claim C5, as amended. Every outcome of \<open>validate_item_name\<close> is either the input
  string itself or an item-name validation error. On a string without whitespace from
  beyond ASCII, it succeeds exactly when the length is between 1 and 100 and every character
  is an ASCII letter, a digit, a space, a hyphen, a tab or a newline: the tab and the newline
  pass the control-character check, which exempts them, and the class \<open>\s\<close> of the
  pattern.
\<close>

theorem validate_item_name_amended:
  "((\<exists>s. v = PyStr s \<and> validate_item_name v = Inr s) \<or>
    (\<exists>m. validate_item_name v = Inl (ItemNameValidationError m))) \<and>
   (list_all (\<lambda>c. \<not> wide_space c) s \<longrightarrow>
      (validate_item_name (PyStr s) = Inr s \<longleftrightarrow>
         1 \<le> length s \<and> length s \<le> 100 \<and> list_all code_item_char s))"
  using validate_item_name_kinds validate_item_name_ascii by blast

theorem validate_item_name_amended_witness:
  "list_all (\<lambda>c. \<not> wide_space c) widget \<and>
   validate_item_name (PyStr widget) = Inr widget \<and>
   1 \<le> length widget \<and> length widget \<le> 100 \<and> list_all code_item_char widget"
proof -
  have a: "list_all (\<lambda>c. \<not> wide_space c) widget"
    by (simp add: widget_def wide_space_def)
  have b: "list_all code_item_char widget \<and> 1 \<le> length widget \<and> length widget \<le> 100"
    by (simp add: widget_def code_item_char_def spec_item_char_def)
  from validate_item_name_amended[of "PyStr widget" widget] a b show ?thesis by blast
qed

text \<open>
  The claim as stated fails on \<open>"A\tB"\<close>: the code returns it, the stated rule excludes
  the tab.
\<close>

theorem validate_item_name_tab_counterexample:
  "validate_item_name (PyStr [65, 9, 66]) = Inr [65, 9, 66] \<and> \<not> spec_item_name [65, 9, 66]"
  by (simp add: validate_item_name_PyStr contains_control_characters_def item_name_class_def
      re_space_def spec_item_name_def spec_item_char_def)

text \<open>
  Claim C6. The claim wants every input with extra trailing characters refused. The code
  accepts \<open>"ABC12345XY-A\n"\<close>: the newline passes the control-character check, and
  \<open>$\<close> matches before a newline that ends the string.
\<close>

theorem validate_customer_id_trailing_newline:
  "validate_customer_id (PyStr (abc_id @ [10])) = Inr (abc_id @ [10])"
  by (simp add: customer_id_eval abc_id_def)

text \<open>
  Claim C4. The claim wants every failure of \<open>validate_price\<close> to be a price
  validation error. On the Decimal NaN the comparison with \<open>MIN_PRICE\<close>, which stands
  outside the \<open>try\<close> block, raises \<open>decimal.InvalidOperation\<close>.
\<close>

theorem validate_price_nan:
  "validate_price to_decimal (PyDecimal (NaN False)) = Inl InvalidOperation"
  by (simp add: validate_price_def)


section \<open>Write-once identifiers\<close>

lemma setattr_private:
  "setattr py_in (instance_dict c) (py ''_cart_id'') v =
     (Some (ImmutabilityViolationError (py ''cart_id'')), instance_dict c)"
  "setattr py_in (instance_dict c) (py ''_customer_id'') v =
     (Some (ImmutabilityViolationError (py ''customer_id'')), instance_dict c)"
  by (simp_all add: setattr_def instance_dict_def IMMUTABLE_FIELDS_def lstrip_underscore_def)

lemma setattr_public:
  "setattr py_in (instance_dict c) (py ''cart_id'') v = (Some AttributeError, instance_dict c)"
  "setattr py_in (instance_dict c) (py ''customer_id'') v = (Some AttributeError, instance_dict c)"
  by (simp_all add: setattr_def instance_dict_def IMMUTABLE_FIELDS_def object_setattr_def properties_def)

lemma getters:
  "get_cart_id (instance_dict c) = Some (UuidV (cart_id c))"
  "get_customer_id (instance_dict c) = Some (StrV (customer_id c))"
  by (simp_all add: get_cart_id_def get_customer_id_def instance_dict_def)

text \<open>
  Claim C7, as amended. On a cart as the constructor and the methods leave it, an
  assignment to \<open>_cart_id\<close> or \<open>_customer_id\<close> raises
  \<open>ImmutabilityViolationError\<close>, naming the field without its underscore; an assignment
  to the property \<open>cart_id\<close> or \<open>customer_id\<close> raises \<open>AttributeError\<close>. Either
  way the instance dictionary is as before, and the two getters return the values of the
  construction.
\<close>

theorem identifiers_write_once:
  "setattr py_in (instance_dict c) (py ''_cart_id'') v =
     (Some (ImmutabilityViolationError (py ''cart_id'')), instance_dict c) \<and>
   setattr py_in (instance_dict c) (py ''_customer_id'') v =
     (Some (ImmutabilityViolationError (py ''customer_id'')), instance_dict c) \<and>
   setattr py_in (instance_dict c) (py ''cart_id'') v = (Some AttributeError, instance_dict c) \<and>
   setattr py_in (instance_dict c) (py ''customer_id'') v = (Some AttributeError, instance_dict c) \<and>
   get_cart_id (instance_dict c) = Some (UuidV (cart_id c)) \<and>
   get_customer_id (instance_dict c) = Some (StrV (customer_id c))"
  by (simp only: setattr_private setattr_public getters simp_thms)

text \<open>
  The claim as stated fails on \<open>cart.cart_id = ...\<close>: the name \<open>cart_id\<close> is not in
  \<open>_IMMUTABLE_FIELDS\<close>, and the error is the property's \<open>AttributeError\<close>.
\<close>

theorem property_assignment_counterexample:
  "fst (setattr (\<lambda>n f. Inr False) (instance_dict empty_cart) (py ''cart_id'') (UuidV 1))
     = Some AttributeError"
  by (simp only: setattr_public fst_conv)


section \<open>Decimal arithmetic within the precision\<close>

declare ndigits.simps [simp del]

lemma ndigits_le: "0 < k \<Longrightarrow> n < 10 ^ k \<Longrightarrow> ndigits n \<le> k"
proof (induction k arbitrary: n)
  case 0
  then show ?case by simp
next
  case (Suc k)
  show ?case
  proof (cases "n < 10")
    case True
    then show ?thesis by (simp add: ndigits.simps)
  next
    case False
    then have k: "0 < k" using Suc.prems by (cases k) auto
    have "n div 10 < 10 ^ k" using Suc.prems(2) by (simp add: less_mult_imp_div_less mult.commute)
    from Suc.IH[OF k this] False show ?thesis by (simp add: ndigits.simps[of n])
  qed
qed

lemma ndigits_pos: "0 < ndigits n"
  by (simp add: ndigits.simps[of n])

text \<open>A coefficient of at most 28 digits with an exponent in range is left alone.\<close>

lemma dec_fix_id:
  assumes "c < 10 ^ 28" and "Etiny \<le> e" and "e \<le> Etop"
  shows "dec_fix s c e = Inr (Finite s c e)"
proof (cases "c = 0")
  case True
  with assms show ?thesis by (simp add: dec_fix_def Etiny_def Etop_def Emax_def)
next
  case False
  have d: "ndigits c \<le> 28" using assms(1) by (intro ndigits_le) simp_all
  then have a: "\<not> int (ndigits c) + e - int prec > Etop"
    using assms(3) by (simp add: prec_def)
  have b: "\<not> e < max (int (ndigits c) + e - int prec) Etiny"
    using d assms(2) by (simp add: prec_def)
  from False a b show ?thesis
    unfolding dec_fix_def Let_def by (simp only: if_False)
qed

lemma dec_fix_exponent:
  assumes "dec_fix s c e = Inr d" and "- 2 \<le> e"
  shows "\<exists>s' c' e'. d = Finite s' c' e' \<and> - 2 \<le> e'"
  using assms
  by (auto simp: dec_fix_def Let_def Etiny_def Emax_def split: if_splits)

section \<open>Validated prices\<close>

lemma signed_at_nonneg: "signed_at m False c e = int c * 10 ^ nat (e - m)"
  by (simp add: signed_at_def)

lemma validate_price_ok:
  assumes "validate_price to_decimal v = Inr p"
  shows "price_ok p"
proof -
  from assms have lt: "dec_lt p MIN_PRICE = Inr False" and gt: "dec_gt p MAX_PRICE = Inr False"
    and ex: "case exponent p of Some e \<Rightarrow> \<not> e < - PRICE_DECIMAL_PLACES | None \<Rightarrow> True"
    by (auto simp: validate_price_def split: pyval.splits option.splits sum.splits bool.splits if_splits)
  show ?thesis
  proof (cases p)
    case (Finite s c e)
    with ex have e: "- 2 \<le> e" by (simp add: PRICE_DECIMAL_PLACES_def)
    then have m: "min e (- 2) = - 2" "min (- 2) e = - 2" by simp_all
    from lt Finite m have a: "0 \<le> signed_at (- 2) s c e"
      by (simp add: MIN_PRICE_def signed_at_def)
    from gt Finite m have b: "signed_at (- 2) s c e \<le> 99999999"
      by (simp add: MAX_PRICE_def dec_gt_def signed_at_def)
    have k: "nat (e - - 2) = nat (e + 2)" by simp
    have pos: "(0::int) < 10 ^ nat (e + 2)" by simp
    have s0: "c = 0 \<or> \<not> s"
    proof (cases s)
      case True
      with a have "int c * 10 ^ nat (e + 2) \<le> 0" by (simp add: signed_at_def)
      with pos have "int c \<le> 0" by (meson mult_le_0_iff not_le)
      then show ?thesis by simp
    next
      case False
      then show ?thesis by simp
    qed
    have "int (c * 10 ^ nat (e + 2)) \<le> 99999999"
    proof (cases s)
      case True
      with s0 show ?thesis by simp
    next
      case False
      with b show ?thesis by (simp add: signed_at_def)
    qed
    then have "c * 10 ^ nat (e + 2) \<le> 99999999" by linarith
    with e s0 Finite show ?thesis by simp
  next
    case (Infinity s)
    with lt gt show ?thesis by (cases s) (simp_all add: MIN_PRICE_def MAX_PRICE_def dec_gt_def)
  next
    case (NaN x)
    with lt show ?thesis by simp
  qed
qed

lemma validate_price_Decimal:
  assumes "price_ok p"
  shows "validate_price to_decimal (PyDecimal p) = Inr p"
proof (cases p)
  case (Finite s c e)
  with assms have e: "- 2 \<le> e" and s0: "c = 0 \<or> \<not> s" and le: "c * 10 ^ nat (e + 2) \<le> 99999999"
    by simp_all
  from le have "int (c * 10 ^ nat (e + 2)) \<le> int 99999999" by (simp only: of_nat_le_iff)
  then have le': "int c * 10 ^ nat (e + 2) \<le> 99999999" by simp
  from e have m: "min e (- 2) = - 2" "min (- 2) e = - 2" by simp_all
  have a: "dec_lt p MIN_PRICE = Inr False"
    using s0 by (auto simp: Finite MIN_PRICE_def m signed_at_def mult_less_0_iff)
  have b: "dec_gt p MAX_PRICE = Inr False"
    using s0 le' by (cases s) (auto simp: Finite MAX_PRICE_def dec_gt_def m signed_at_def)
  show ?thesis
    using e a b unfolding Finite by (simp add: validate_price_def PRICE_DECIMAL_PLACES_def)
next
  case (Infinity s)
  with assms show ?thesis by simp
next
  case (NaN x)
  with assms show ?thesis by simp
qed

lemma CatalogItem_new_ok:
  "CatalogItem_new to_decimal n p = Inr item \<Longrightarrow> price_ok (price_of item)"
  by (auto simp: CatalogItem_new_def split: sum.splits dest: validate_price_ok)

lemma Catalog_fill_ok:
  "Catalog_fill to_decimal entries acc = Inr cat \<Longrightarrow> catalog_ok acc \<Longrightarrow> catalog_ok cat"
proof (induction entries arbitrary: acc)
  case Nil
  then show ?case by simp
next
  case (Cons x entries)
  obtain n p where x: "x = (n, p)" by (cases x)
  from Cons.prems(1) x obtain item where
    item: "CatalogItem_new to_decimal n p = Inr item"
    and rest: "Catalog_fill to_decimal entries (AList.update (name_of item) item acc) = Inr cat"
    by (auto split: sum.splits)
  have "catalog_ok (AList.update (name_of item) item acc)"
    using Cons.prems(2) CatalogItem_new_ok[OF item]
    unfolding catalog_ok_def by (auto dest!: set_updateD)
  from Cons.IH[OF rest this] show ?case .
qed

lemma Catalog_init_ok: "Catalog_init to_decimal entries = Inr cat \<Longrightarrow> catalog_ok cat"
  unfolding Catalog_init_def by (erule Catalog_fill_ok) (simp add: catalog_ok_def)

lemma get_price_ok: "catalog_ok cat \<Longrightarrow> get_price cat n = Some p \<Longrightarrow> price_ok p"
  unfolding catalog_ok_def get_price_def
  by (auto split: option.splits dest!: map_of_SomeD)

text \<open>A non-zero coefficient of a valid price has at most eight digits and an exponent of at most 5.\<close>

lemma price_ok_bounds:
  assumes "price_ok (Finite s c e)" and "c \<noteq> 0"
  shows "c \<le> 99999999" and "e \<le> 5"
proof -
  define X :: nat where "X = 10 ^ nat (e + 2)"
  from assms have le: "c * X \<le> 99999999" and e: "- 2 \<le> e" by (simp_all add: X_def)
  have X1: "1 \<le> X" by (simp add: X_def)
  have "c * 1 \<le> c * X" using X1 by (rule mult_le_mono2)
  with le show "c \<le> 99999999" by linarith
  show "e \<le> 5"
  proof (rule ccontr)
    assume "\<not> e \<le> 5"
    then have "8 \<le> nat (e + 2)" by simp
    then have "(10::nat) ^ 8 \<le> 10 ^ nat (e + 2)" by (intro power_increasing) simp_all
    then have A: "100000000 \<le> X" by (simp add: X_def)
    have "1 \<le> c" using assms(2) by simp
    then have "1 * X \<le> c * X" by (rule mult_le_mono1)
    with A le show False by linarith
  qed
qed

lemma cents_bound: "price_ok p \<Longrightarrow> cents p \<le> 99999999"
  by (cases p) simp_all

lemma dec_mul_int_ok:
  assumes "price_ok p" and "1 \<le> q" and "q \<le> 10000"
  shows "\<exists>s c e. dec_mul_int p q = Inr (Finite s c e) \<and> - 2 \<le> e \<and> (c = 0 \<or> \<not> s)
           \<and> c * 10 ^ nat (e + 2) = cents p * nat q"
proof (cases p)
  case (Finite s c e)
  with assms(1) have e: "- 2 \<le> e" and s0: "c = 0 \<or> \<not> s" by simp_all
  from assms(2) have qs: "\<not> q < 0" "nat \<bar>q\<bar> = nat q" by simp_all
  show ?thesis
  proof (cases "c = 0")
    case True
    have "- 2 \<le> min (max e Etiny) Emax" using e by (simp add: Emax_def)
    with True Finite show ?thesis by (simp add: dec_fix_def)
  next
    case False
    from price_ok_bounds[OF assms(1)[unfolded Finite] False] have c: "c \<le> 99999999" and e5: "e \<le> 5" .
    have "nat q \<le> 10000" using assms(3) by simp
    with c have "c * nat q \<le> 99999999 * 10000" by (rule mult_le_mono)
    then have small: "c * nat q < 10 ^ 28" by simp
    have "dec_fix s (c * nat q) e = Inr (Finite s (c * nat q) e)"
      using small e e5 by (intro dec_fix_id) (simp_all add: Etiny_def Etop_def)
    with False s0 e Finite qs show ?thesis by (auto simp: mult_ac)
  qed
next
  case (Infinity s)
  with assms(1) show ?thesis by simp
next
  case (NaN x)
  with assms(1) show ?thesis by simp
qed

lemma dec_add_ok:
  assumes "- 2 \<le> e" and "c = 0 \<or> \<not> s" and "t + c * 10 ^ nat (e + 2) < 10 ^ 28"
  shows "dec_add (Finite False t (- 2)) (Finite s c e) = Inr (Finite False (t + c * 10 ^ nat (e + 2)) (- 2))"
proof -
  define y where "y = t + c * 10 ^ nat (e + 2)"
  from assms(1) have m: "min (- 2) e = - 2" by simp
  have k: "nat (e - - 2) = nat (e + 2)" by simp
  have x1: "signed_at (- 2) False t (- 2) = int t" by (simp add: signed_at_def)
  have x2: "signed_at (- 2) s c e = int (c * 10 ^ nat (e + 2))"
    using assms(2) by (auto simp: signed_at_def k)
  have x: "signed_at (- 2) False t (- 2) + signed_at (- 2) s c e = int y"
    unfolding x1 x2 y_def by simp
  have sg: "(if t = 0 \<and> c = 0 then False \<and> s else int y < 0) = False" by simp
  have ab: "nat \<bar>int y\<bar> = y" by simp
  have f: "dec_fix False y (- 2) = Inr (Finite False y (- 2))"
    using assms(3) unfolding y_def by (intro dec_fix_id) (simp_all add: Etiny_def Etop_def)
  have "dec_add (Finite False t (- 2)) (Finite s c e) = Inr (Finite False y (- 2))"
    by (simp only: dec_add.simps m Let_def x sg ab f)
  then show ?thesis unfolding y_def .
qed

section \<open>The total of a cart\<close>

lemma total_cents_Nil [simp]: "total_cents cat [] = 0"
  by (simp add: total_cents_def)

lemma total_cents_Cons:
  "total_cents cat ((n, q) # its) =
     (case get_price cat n of None \<Rightarrow> 0 | Some p \<Rightarrow> cents p * nat q) + total_cents cat its"
  by (simp add: total_cents_def)

lemma quantities_ok_Cons:
  "quantities_ok ((n, q) # its) \<longleftrightarrow> 1 \<le> q \<and> q \<le> 10000 \<and> quantities_ok its"
  by (auto simp: quantities_ok_def)

lemma get_total_loop_exact:
  assumes "catalog_ok cat" and "quantities_ok its" and "t + total_cents cat its < 10 ^ 28"
  shows "get_total_loop cat its (Finite False t (- 2)) =
           Inr (Finite False (t + total_cents cat its) (- 2))"
  using assms(2,3)
proof (induction its arbitrary: t)
  case Nil
  then show ?case by simp
next
  case (Cons x its)
  obtain n q where x: "x = (n, q)" by (cases x)
  from Cons.prems(1) x have q: "1 \<le> q" "q \<le> 10000" and rest: "quantities_ok its"
    by (simp_all add: quantities_ok_Cons)
  show ?case
  proof (cases "get_price cat n")
    case None
    with Cons.prems(2) x have "t + total_cents cat its < 10 ^ 28"
      by (simp add: total_cents_Cons)
    from Cons.IH[OF rest this] None x show ?thesis by (simp add: total_cents_Cons)
  next
    case (Some p)
    from get_price_ok[OF assms(1) Some] have ok: "price_ok p" .
    from dec_mul_int_ok[OF ok q] obtain s c e where
      mul: "dec_mul_int p q = Inr (Finite s c e)" and e: "- 2 \<le> e" and s0: "c = 0 \<or> \<not> s"
      and v: "c * 10 ^ nat (e + 2) = cents p * nat q" by blast
    from Cons.prems(2) x Some have b: "(t + cents p * nat q) + total_cents cat its < 10 ^ 28"
      by (simp add: total_cents_Cons add.assoc)
    then have "t + c * 10 ^ nat (e + 2) < 10 ^ 28" unfolding v by simp
    from dec_add_ok[OF e s0 this]
    have add: "dec_add (Finite False t (- 2)) (Finite s c e) = Inr (Finite False (t + cents p * nat q) (- 2))"
      unfolding v .
    from Cons.IH[OF rest b] x Some mul add show ?thesis
      by (simp add: total_cents_Cons add.assoc)
  qed
qed

lemma total_cents_bound:
  assumes "catalog_ok cat" and "quantities_ok its"
  shows "total_cents cat its \<le> length its * 999999990000"
  using assms(2)
proof (induction its)
  case Nil
  then show ?case by simp
next
  case (Cons x its)
  obtain n q where x: "x = (n, q)" by (cases x)
  from Cons.prems x have q: "1 \<le> q" "q \<le> 10000" and rest: "quantities_ok its"
    by (simp_all add: quantities_ok_Cons)
  have "(case get_price cat n of None \<Rightarrow> 0 | Some p \<Rightarrow> cents p * nat q) \<le> 999999990000"
  proof (cases "get_price cat n")
    case None
    then show ?thesis by simp
  next
    case (Some p)
    from cents_bound[OF get_price_ok[OF assms(1) Some]] have "cents p \<le> 99999999" .
    moreover have "nat q \<le> 10000" using q by simp
    ultimately have "cents p * nat q \<le> 99999999 * 10000" by (rule mult_le_mono)
    with Some show ?thesis by simp
  qed
  with Cons.IH[OF rest] x show ?case by (simp add: total_cents_Cons)
qed

lemma total_cents_small:
  assumes "catalog_ok cat" and "quantities_ok its" and "length its \<le> 10 ^ 16"
  shows "total_cents cat its < 10 ^ 28"
proof -
  have "length its * 999999990000 \<le> 10 ^ 16 * 999999990000"
    using assms(3) by (rule mult_le_mono1)
  with total_cents_bound[OF assms(1,2)] show ?thesis by simp
qed

lemma ten_shift: "- 2 \<le> e \<Longrightarrow>
  (if 0 \<le> e then 10 ^ nat e else 1 / 10 ^ nat (- e)) = (10::real) ^ nat (e + 2) / 100"
proof -
  assume a: "- 2 \<le> e"
  consider "e = - 2" | "e = - 1" | "0 \<le> e" using a by linarith
  then show ?thesis
  proof cases
    case 3
    then have "nat (e + 2) = nat e + 2" by simp
    with 3 show ?thesis by (simp add: power_add)
  qed simp_all
qed

lemma price_value: "price_ok p \<Longrightarrow> dec_value p = real (cents p) / 100"
  by (cases p) (auto simp: ten_shift)

lemma exact_total_cents:
  assumes "catalog_ok cat" and "quantities_ok its"
  shows "exact_total cat its = real (total_cents cat its) / 100"
  using assms(2)
proof (induction its)
  case Nil
  then show ?case by (simp add: exact_total_def)
next
  case (Cons x its)
  obtain n q where x: "x = (n, q)" by (cases x)
  from Cons.prems x have q: "1 \<le> q" and rest: "quantities_ok its"
    by (simp_all add: quantities_ok_Cons)
  have step: "exact_total cat (x # its) =
      (case get_price cat n of None \<Rightarrow> 0 | Some p \<Rightarrow> dec_value p * real_of_int q) + exact_total cat its"
    by (simp add: exact_total_def x)
  have "(case get_price cat n of None \<Rightarrow> 0 | Some p \<Rightarrow> dec_value p * real_of_int q)
        = real (case get_price cat n of None \<Rightarrow> 0 | Some p \<Rightarrow> cents p * nat q) / 100"
  proof (cases "get_price cat n")
    case None
    then show ?thesis by simp
  next
    case (Some p)
    from price_value[OF get_price_ok[OF assms(1) Some]] q Some show ?thesis by simp
  qed
  with step Cons.IH[OF rest] x show ?case
    by (simp add: total_cents_Cons add_divide_distrib)
qed

text \<open>
  Claim C3. On a catalog that the constructor built, for a mapping whose quantities lie
  between 1 and 10000 (every reachable cart has such a mapping, by
  \<open>reachable_quantities_ok\<close>), \<open>get_total\<close> returns the exact sum, from 0.00 on, of
  quantity times price over the entries of the mapping, a name the catalog lacks adding
  nothing. The mapping has at most \<open>10^16\<close> entries, more than a dict in memory can
  hold: the sum then has at most 28 digits, the precision of the decimal context, and no
  addition rounds.
\<close>

theorem get_total_exact:
  assumes "Catalog_init to_decimal entries = Inr (catalog c)"
    and "quantities_ok (items c)" and "length (items c) \<le> 10 ^ 16"
  shows "\<exists>t. get_total c = Inr t \<and> dec_value t = exact_total (catalog c) (items c)"
proof -
  from assms(1) have ok: "catalog_ok (catalog c)" by (rule Catalog_init_ok)
  from total_cents_small[OF ok assms(2,3)]
  have "0 + total_cents (catalog c) (items c) < 10 ^ 28" by simp
  from get_total_loop_exact[OF ok assms(2) this]
  have "get_total c = Inr (Finite False (total_cents (catalog c) (items c)) (- 2))"
    by (simp add: get_total_def)
  moreover have "dec_value (Finite False (total_cents (catalog c) (items c)) (- 2))
      = exact_total (catalog c) (items c)"
    by (simp add: exact_total_cents[OF ok assms(2)])
  ultimately show ?thesis by blast
qed

lemma reachable_quantities_ok: "reachable c \<Longrightarrow> quantities_ok (items c)"
  by (drule reachable_inv) (auto simp: cart_inv_def quantities_ok_def)

lemma widget_catalog_init:
  "Catalog_init to_decimal [(PyStr widget, PyDecimal (Finite False 1099 (- 2)))] = Inr widget_catalog"
  by (simp add: Catalog_init_def CatalogItem_new_def valid_widget validate_price_Decimal
      widget_catalog_def)

lemmas get_total_eval =
  get_total_def get_price_def widget_catalog_def widget_def dec_fix_def ndigits.simps
  signed_at_def prec_def Etop_def Etiny_def Emax_def Let_def

lemma get_total_widget_2: "get_total (widget_cart 2) = Inr (Finite False 2198 (- 2))"
  by (simp add: widget_cart_def empty_cart_def get_total_eval)

lemma get_total_widget_5: "get_total (widget_cart 5) = Inr (Finite False 5495 (- 2))"
  by (simp add: widget_cart_def empty_cart_def get_total_eval)

lemma get_total_empty: "get_total empty_cart = Inr (Finite False 0 (- 2))"
  by (simp add: empty_cart_def get_total_eval)

lemma get_total_stray: "get_total stray_cart = Inr (Finite False 2198 (- 2))"
  by (simp add: stray_cart_def empty_cart_def get_total_eval)

text \<open>
  The scenarios: Widget at 10.99 twice is 21.98, also beside a name the catalog lacks; five
  times is 54.95; the empty cart totals 0.00.
\<close>

theorem get_total_exact_witness:
  "Catalog_init (\<lambda>v. None) [(PyStr widget, PyDecimal (Finite False 1099 (- 2)))]
     = Inr (catalog stray_cart) \<and>
   quantities_ok (items stray_cart) \<and> length (items stray_cart) \<le> 10 ^ 16 \<and>
   get_total stray_cart = Inr (Finite False 2198 (- 2)) \<and>
   exact_total (catalog stray_cart) (items stray_cart) = 2198 / 100 \<and>
   get_total (widget_cart 2) = Inr (Finite False 2198 (- 2)) \<and>
   get_total (widget_cart 5) = Inr (Finite False 5495 (- 2)) \<and>
   get_total empty_cart = Inr (Finite False 0 (- 2))"
proof -
  have a: "Catalog_init (\<lambda>v. None) [(PyStr widget, PyDecimal (Finite False 1099 (- 2)))]
     = Inr (catalog stray_cart)"
    by (simp add: widget_catalog_init stray_cart_def)
  have b: "quantities_ok (items stray_cart)"
    by (simp add: quantities_ok_def stray_cart_def)
  have c: "length (items stray_cart) \<le> 10 ^ 16"
    by (simp add: stray_cart_def)
  from get_total_exact[OF a b c] obtain t where
    "get_total stray_cart = Inr t" "dec_value t = exact_total (catalog stray_cart) (items stray_cart)"
    by blast
  with get_total_stray have "exact_total (catalog stray_cart) (items stray_cart) = 2198 / 100"
    by simp
  with a b c get_total_stray get_total_widget_2 get_total_widget_5 get_total_empty
  show ?thesis by blast
qed

lemma get_total_loop_exponent:
  assumes "catalog_ok cat"
  shows "get_total_loop cat its (Finite s t e) = Inr d \<Longrightarrow> - 2 \<le> e \<Longrightarrow>
         \<exists>s' c' e'. d = Finite s' c' e' \<and> - 2 \<le> e'"
proof (induction its arbitrary: s t e)
  case Nil
  then show ?case by auto
next
  case (Cons x its)
  obtain n q where x: "x = (n, q)" by (cases x)
  show ?case
  proof (cases "get_price cat n")
    case None
    with Cons.prems x have "get_total_loop cat its (Finite s t e) = Inr d" by simp
    from Cons.IH[OF this Cons.prems(2)] show ?thesis .
  next
    case (Some p)
    from get_price_ok[OF assms Some] obtain ps pc pe where
      p: "p = Finite ps pc pe" and pe: "- 2 \<le> pe"
      by (cases p) simp_all
    from Cons.prems(1) x Some obtain prod running where
      mul: "dec_mul_int p q = Inr prod" and add: "dec_add (Finite s t e) prod = Inr running"
      and rest: "get_total_loop cat its running = Inr d"
      by (auto split: sum.splits)
    from mul p have "dec_fix (ps \<noteq> (q < 0)) (pc * nat \<bar>q\<bar>) pe = Inr prod" by simp
    from dec_fix_exponent[OF this pe] obtain s1 c1 e1 where
      prod: "prod = Finite s1 c1 e1" and e1: "- 2 \<le> e1" by blast
    from add prod obtain s2 c2 where
      "dec_fix s2 c2 (min e e1) = Inr running" by (simp add: Let_def)
    moreover have "- 2 \<le> min e e1" using Cons.prems(2) e1 by simp
    ultimately obtain s3 c3 e3 where
      run: "running = Finite s3 c3 e3" and e3: "- 2 \<le> e3"
      using dec_fix_exponent by blast
    from Cons.IH[OF rest[unfolded run] e3] show ?thesis .
  qed
qed

text \<open>
  Claim C10. For a reachable cart on a catalog that the constructor built, whatever
  \<open>get_total\<close> returns has an exponent of at least \<open>-2\<close>, that is at most two
  fractional digits: sums and products of such values never have a smaller exponent, and
  rounding only raises it. With at most \<open>10^16\<close> entries it does return, with exponent
  \<open>-2\<close>.
\<close>

theorem get_total_two_places:
  assumes "reachable c" and "Catalog_init to_decimal entries = Inr (catalog c)"
  shows "(\<forall>t. get_total c = Inr t \<longrightarrow> (\<exists>e. exponent t = Some e \<and> - 2 \<le> e)) \<and>
         (length (items c) \<le> 10 ^ 16 \<longrightarrow> (\<exists>t. get_total c = Inr t \<and> exponent t = Some (- 2)))"
proof -
  from assms(2) have ok: "catalog_ok (catalog c)" by (rule Catalog_init_ok)
  from assms(1) have q: "quantities_ok (items c)" by (rule reachable_quantities_ok)
  have a: "\<exists>e. exponent t = Some e \<and> - 2 \<le> e" if "get_total c = Inr t" for t
  proof -
    from that have "get_total_loop (catalog c) (items c) (Finite False 0 (- 2)) = Inr t"
      by (simp add: get_total_def)
    from get_total_loop_exponent[OF ok this] show ?thesis by auto
  qed
  have b: "\<exists>t. get_total c = Inr t \<and> exponent t = Some (- 2)" if "length (items c) \<le> 10 ^ 16"
  proof -
    from total_cents_small[OF ok q that]
    have "0 + total_cents (catalog c) (items c) < 10 ^ 28" by simp
    from get_total_loop_exact[OF ok q this] show ?thesis
      by (simp add: get_total_def)
  qed
  from a b show ?thesis by blast
qed

theorem get_total_two_places_witness:
  "reachable (widget_cart 5) \<and>
   Catalog_init (\<lambda>v. None) [(PyStr widget, PyDecimal (Finite False 1099 (- 2)))]
     = Inr (catalog (widget_cart 5)) \<and>
   length (items (widget_cart 5)) \<le> 10 ^ 16 \<and>
   get_total (widget_cart 5) = Inr (Finite False 5495 (- 2)) \<and>
   exponent (Finite False 5495 (- 2)) = Some (- 2)"
proof -
  have r: "reachable (widget_cart 5)" by (rule reachable_widget_cart) simp_all
  have a: "Catalog_init (\<lambda>v. None) [(PyStr widget, PyDecimal (Finite False 1099 (- 2)))]
     = Inr (catalog (widget_cart 5))"
    by (simp add: widget_catalog_init widget_cart_def)
  have l: "length (items (widget_cart 5)) \<le> 10 ^ 16" by (simp add: widget_cart_def)
  from get_total_two_places[OF r a] l obtain t where
    "get_total (widget_cart 5) = Inr t" "exponent t = Some (- 2)" by blast
  with get_total_widget_5 have "exponent (Finite False 5495 (- 2)) = Some (- 2)" by simp
  with r a l get_total_widget_5 show ?thesis by blast
qed

section \<open>Copies returned by the accessors\<close>

lemma next_addr_poke [simp]: "next_addr (poke a x st) = next_addr st"
  by (simp add: poke_def)

lemma dicts_poke: "dicts (poke a x st) b = (if b = a then x else dicts st b)"
  by (simp add: poke_def)

lemma view_poke:
  "a \<noteq> items_at c \<Longrightarrow> a \<noteq> catalog_at c \<Longrightarrow> view (poke a x st) c = view st c"
  by (simp add: view_def dicts_poke split: option.splits dict.splits)

lemma poke_update:
  "a \<noteq> b \<Longrightarrow> (poke a x st)\<lparr>dicts := (dicts (poke a x st))(b \<mapsto> d)\<rparr>
     = poke a x (st\<lparr>dicts := (dicts st)(b \<mapsto> d)\<rparr>)"
  by (simp add: poke_def fun_upd_twist)

lemma alloc_poke:
  "a < next_addr st \<Longrightarrow> alloc (poke a x st) d = (fst (alloc st d), poke a x (snd (alloc st d)))"
  by (simp add: alloc_def poke_def fun_upd_twist)

lemma deepcopy_poke:
  "a < next_addr st \<Longrightarrow> a \<noteq> b \<Longrightarrow>
   deepcopy (poke a x st) b = map_option (\<lambda>(r, s). (r, poke a x s)) (deepcopy st b)"
  by (simp add: deepcopy_def dicts_poke alloc_poke case_prod_beta split: option.splits)

lemma mutating_poke:
  "a \<noteq> items_at c \<Longrightarrow> a \<noteq> catalog_at c \<Longrightarrow>
   mutating c (poke a x st) m = map_option (\<lambda>(r, s). (r, poke a x s)) (mutating c st m)"
  by (auto simp: mutating_def view_poke poke_update split: option.splits prod.splits)

lemma alloc_fresh: "alloc st d = (b, st') \<Longrightarrow> b = next_addr st \<and> next_addr st' = Suc (next_addr st)
   \<and> dicts st' = (dicts st)(b \<mapsto> d)"
  by (auto simp: alloc_def)

lemma run_poke:
  assumes "a \<noteq> items_at c" and "a \<noteq> catalog_at c" and "a < next_addr st"
    and "items_at c < next_addr st" and "catalog_at c < next_addr st"
  shows "run c (poke a x st) call = map_option (\<lambda>(r, s). (r, poke a x s)) (run c st call)"
proof (cases call)
  case Get_items
  show ?thesis
    using assms
    by (auto simp: Get_items deepcopy_def dicts_poke alloc_def poke_def fun_upd_twist
        split: option.splits)
next
  case Get_all_items
  show ?thesis
    using assms
    by (auto simp: Get_all_items deepcopy_def dicts_poke alloc_def poke_def fun_upd_twist
        split: option.splits dict.splits)
qed (use assms in \<open>auto simp: mutating_poke view_poke dicts_poke split: option.splits dict.splits\<close>)

lemma run_next_addr:
  "run c st call = Some (r, st') \<Longrightarrow> next_addr st \<le> next_addr st'"
  by (cases call)
     (auto simp: mutating_def deepcopy_def alloc_def split: option.splits prod.splits dict.splits)

lemma run_all_poke:
  assumes "a \<noteq> items_at c" and "a \<noteq> catalog_at c"
    and "items_at c < next_addr st" and "catalog_at c < next_addr st"
  shows "a < next_addr st \<Longrightarrow>
    run_all c (poke a x st) calls = map_option (\<lambda>(rs, s). (rs, poke a x s)) (run_all c st calls)"
  using assms(3,4)
proof (induction calls arbitrary: st)
  case Nil
  then show ?case by simp
next
  case (Cons call calls)
  note rp = run_poke[OF assms(1,2) Cons.prems(1,2,3), of x call]
  show ?case
  proof (cases "run c st call")
    case None
    with rp show ?thesis by simp
  next
    case (Some p)
    obtain r st' where p: "p = (r, st')" by (cases p)
    from run_next_addr[OF Some[unfolded p]] have mono: "next_addr st \<le> next_addr st'" .
    with Cons.prems have b: "a < next_addr st'" "items_at c < next_addr st'" "catalog_at c < next_addr st'"
      by simp_all
    from Cons.IH[OF b] rp Some p show ?thesis
      by (simp split: option.splits)
  qed
qed

lemma run_Returns_dict:
  assumes "run c st call = Some (Returns_dict a d, st')"
  shows "next_addr st \<le> a \<and> a < next_addr st' \<and> dicts st' a = Some d
         \<and> (\<forall>x < next_addr st. dicts st' x = dicts st x)"
  using assms
  by (cases call)
     (auto simp: mutating_def deepcopy_def alloc_def split: option.splits prod.splits dict.splits
        sum.splits)

lemma view_SomeD:
  "view st c = Some v \<Longrightarrow>
     dicts st (catalog_at c) = Some (ItemDict (catalog v)) \<and>
     dicts st (items_at c) = Some (QtyDict (items v))"
  by (auto simp: view_def split: option.splits dict.splits)

lemma view_alloc:
  "items_at c < next_addr st \<Longrightarrow> catalog_at c < next_addr st \<Longrightarrow>
   view (snd (alloc st d)) c = view st c"
  by (simp add: view_def alloc_def split: option.splits dict.splits)

lemma next_addr_alloc [simp]: "next_addr (snd (alloc st d)) = Suc (next_addr st)"
  by (simp add: alloc_def)

lemma run_Get_items:
  assumes "view st c = Some v"
  shows "run c st Get_items =
           Some (Returns_dict (next_addr st) (QtyDict (items v)),
                 snd (alloc st (QtyDict (items v))))"
  using view_SomeD[OF assms] by (simp add: deepcopy_def alloc_def)

text \<open>
  The dict that \<open>get_all_items\<close> builds has the catalog's names, in the catalog's order,
  each with the price of its entry: looking a name up in it is \<open>get_price\<close>.
\<close>

lemma get_all_items_entries:
  "get_all_items cat = map (\<lambda>entry. (fst entry, price_of (snd entry))) cat"
  by (simp add: get_all_items_def case_prod_beta)

lemma get_all_items_keys: "map fst (get_all_items cat) = map fst cat"
  by (simp add: get_all_items_entries comp_def)

lemma get_all_items_lookup: "map_of (get_all_items cat) n = get_price cat n"
  unfolding get_all_items_entries get_price_def
  by (induction cat) auto

lemma run_Get_all_items:
  assumes "view st c = Some v"
  shows "run c st Get_all_items =
           Some (Returns_dict (Suc (next_addr st))
                   (PriceDict (map (\<lambda>entry. (fst entry, price_of (snd entry))) (catalog v))),
                 snd (alloc (snd (alloc st
                        (PriceDict (map (\<lambda>entry. (fst entry, price_of (snd entry))) (catalog v)))))
                        (PriceDict (map (\<lambda>entry. (fst entry, price_of (snd entry))) (catalog v)))))"
  using view_SomeD[OF assms] by (simp add: deepcopy_def alloc_def get_all_items_entries)

text \<open>
  Claim C8. In a store where the cart's two dicts are allocated, \<open>get_items\<close> returns
  a dict with exactly the entries of the cart's mapping, and \<open>get_all_items\<close> a dict
  with exactly the catalog's names, in order, each with the price of its entry, so that a
  lookup in it gives what \<open>get_price\<close> gives; each is a new object, and the cart is as
  before. Whatever the caller then does to a returned dict, every later sequence of calls
  of the cart's and the catalog's methods gives the results it would have given otherwise;
  and of two dicts returned one after the other, neither changes when the caller writes
  the other.
\<close>

theorem copies_are_independent:
  assumes "view st c = Some v" and "items_at c < next_addr st" and "catalog_at c < next_addr st"
  shows "(\<exists>a st'. run c st Get_items = Some (Returns_dict a (QtyDict (items v)), st')
            \<and> view st' c = Some v) \<and>
         (\<exists>a ps st'. run c st Get_all_items = Some (Returns_dict a (PriceDict ps), st')
            \<and> ps = map (\<lambda>entry. (fst entry, price_of (snd entry))) (catalog v)
            \<and> map fst ps = map fst (catalog v)
            \<and> (\<forall>n. map_of ps n = get_price (catalog v) n)
            \<and> view st' c = Some v) \<and>
         (\<forall>call a d st' x calls. run c st call = Some (Returns_dict a d, st') \<longrightarrow>
            map_option fst (run_all c (poke a x st') calls) = map_option fst (run_all c st' calls)) \<and>
         (\<forall>call a d st' call2 b d2 st2 x.
            run c st call = Some (Returns_dict a d, st') \<and>
            run c st' call2 = Some (Returns_dict b d2, st2) \<longrightarrow>
            a \<noteq> b \<and> dicts (poke a x st2) b = Some d2 \<and> dicts (poke b x st2) a = Some d)"
proof -
  define ps where "ps = map (\<lambda>entry. (fst entry, price_of (snd entry))) (catalog v)"
  have w1: "view (snd (alloc st (QtyDict (items v)))) c = Some v"
    using view_alloc[OF assms(2,3)] assms(1) by simp
  have g1: "\<exists>a st'. run c st Get_items = Some (Returns_dict a (QtyDict (items v)), st')
            \<and> view st' c = Some v"
    using run_Get_items[OF assms(1)] w1 by blast
  have w2: "view (snd (alloc (snd (alloc st (PriceDict ps))) (PriceDict ps))) c = Some v"
    using assms by (simp add: view_alloc)
  have k: "map fst ps = map fst (catalog v)"
    using get_all_items_keys[of "catalog v"] unfolding get_all_items_entries ps_def .
  have l: "\<forall>n. map_of ps n = get_price (catalog v) n"
    using get_all_items_lookup[of "catalog v"] unfolding get_all_items_entries ps_def by blast
  have r2: "run c st Get_all_items =
      Some (Returns_dict (Suc (next_addr st)) (PriceDict ps),
            snd (alloc (snd (alloc st (PriceDict ps))) (PriceDict ps)))"
    using run_Get_all_items[OF assms(1)] unfolding ps_def .
  have g2: "\<exists>a ps st'. run c st Get_all_items = Some (Returns_dict a (PriceDict ps), st')
            \<and> ps = map (\<lambda>entry. (fst entry, price_of (snd entry))) (catalog v)
            \<and> map fst ps = map fst (catalog v)
            \<and> (\<forall>n. map_of ps n = get_price (catalog v) n)
            \<and> view st' c = Some v"
    using r2 ps_def k l w2 by blast
  have g3: "map_option fst (run_all c (poke a x st') calls) = map_option fst (run_all c st' calls)"
    if r: "run c st call = Some (Returns_dict a d, st')" for call a d st' x calls
  proof -
    from run_Returns_dict[OF r] have a: "next_addr st \<le> a" "a < next_addr st'" by simp_all
    from run_next_addr[OF r] assms(2,3)
    have w: "items_at c < next_addr st'" "catalog_at c < next_addr st'" by simp_all
    from a assms(2,3) have ne: "a \<noteq> items_at c" "a \<noteq> catalog_at c" by simp_all
    from run_all_poke[OF ne w a(2), of x calls] show ?thesis
      by (cases "run_all c st' calls") (simp_all add: case_prod_beta)
  qed
  have g4: "a \<noteq> b \<and> dicts (poke a x st2) b = Some d2 \<and> dicts (poke b x st2) a = Some d"
    if r1: "run c st call = Some (Returns_dict a d, st')"
      and r2: "run c st' call2 = Some (Returns_dict b d2, st2)"
    for call a d st' call2 b d2 st2 x
  proof -
    from run_Returns_dict[OF r1] have a: "a < next_addr st'" "dicts st' a = Some d" by simp_all
    from run_Returns_dict[OF r2] have b: "next_addr st' \<le> b" "dicts st2 b = Some d2"
      and keep: "\<forall>x < next_addr st'. dicts st2 x = dicts st' x" by simp_all
    from a(1) b(1) have ne: "a \<noteq> b" by simp
    from keep a have "dicts st2 a = Some d" by simp
    with b(2) ne show ?thesis by (simp add: dicts_poke)
  qed
  from g1 g2 g3 g4 show ?thesis by blast
qed

lemma view_widget_store: "view widget_store widget_object = Some (widget_cart 2)"
  by (simp add: view_def widget_store_def widget_object_def widget_cart_def empty_cart_def)

lemma widget_object_allocated:
  "items_at widget_object < next_addr widget_store"
  "catalog_at widget_object < next_addr widget_store"
  by (simp_all add: widget_object_def widget_store_def)

lemma items_widget_cart: "items (widget_cart q) = [(widget, q)]"
  by (simp add: widget_cart_def)

lemma catalog_widget_cart: "catalog (widget_cart q) = widget_catalog"
  by (simp add: widget_cart_def)

lemma widget_prices_entries:
  "PriceDict (map (\<lambda>entry. (fst entry, price_of (snd entry))) widget_catalog) = widget_prices"
  by (simp add: widget_catalog_def widget_prices_def)

text \<open>The scenario's two accessors, called on the store as it is at first.\<close>

lemma run_widget_Get_items:
  "run widget_object widget_store Get_items
     = Some (Returns_dict 2 (QtyDict [(widget, 2)]), copied_store)"
  using run_Get_items[OF view_widget_store]
  by (simp add: items_widget_cart copied_store_def widget_store_def)

lemma run_widget_Get_all_items:
  "run widget_object widget_store Get_all_items = Some (Returns_dict 3 widget_prices, priced_store)"
  using run_Get_all_items[OF view_widget_store]
  by (simp add: catalog_widget_cart widget_prices_entries priced_store_def widget_store_def)

text \<open>The same calls later, on the stores that hold the copies.\<close>

lemma view_copied_store: "view copied_store widget_object = Some (widget_cart 2)"
  unfolding copied_store_def
  by (simp only: view_alloc[OF widget_object_allocated] view_widget_store)

lemma copied_store_allocated:
  "items_at widget_object < next_addr copied_store"
  "catalog_at widget_object < next_addr copied_store"
  by (simp_all add: widget_object_def widget_store_def copied_store_def)

lemma run_copied_store:
  "map_option fst (run_all widget_object copied_store [Get_items, Get_total])
     = Some [Returns_dict 3 (QtyDict [(widget, 2)]), Returns_decimal (Finite False 2198 (- 2))]"
proof -
  have a: "run widget_object copied_store Get_items
      = Some (Returns_dict 3 (QtyDict [(widget, 2)]), snd (alloc copied_store (QtyDict [(widget, 2)])))"
    using run_Get_items[OF view_copied_store]
    by (simp add: items_widget_cart copied_store_def widget_store_def)
  have v: "view (snd (alloc copied_store (QtyDict [(widget, 2)]))) widget_object = Some (widget_cart 2)"
    by (simp only: view_alloc[OF copied_store_allocated] view_copied_store)
  have b: "run widget_object (snd (alloc copied_store (QtyDict [(widget, 2)]))) Get_total
      = Some (Returns_decimal (Finite False 2198 (- 2)), snd (alloc copied_store (QtyDict [(widget, 2)])))"
    by (simp add: v get_total_widget_2)
  show ?thesis by (simp del: run.simps add: a b)
qed

lemma view_priced_store: "view priced_store widget_object = Some (widget_cart 2)"
proof -
  have "items_at widget_object < next_addr (snd (alloc widget_store widget_prices))"
    and "catalog_at widget_object < next_addr (snd (alloc widget_store widget_prices))"
    using widget_object_allocated by simp_all
  then show ?thesis
    unfolding priced_store_def
    by (simp only: view_alloc view_alloc[OF widget_object_allocated] view_widget_store)
qed

lemma run_priced_store:
  "map_option fst (run_all widget_object priced_store [Get_price widget, Get_all_items])
     = Some [Returns_price (Some (Finite False 1099 (- 2))), Returns_dict 5 widget_prices]"
proof -
  from view_SomeD[OF view_priced_store]
  have cat: "dicts priced_store (catalog_at widget_object) = Some (ItemDict widget_catalog)"
    by (simp add: catalog_widget_cart)
  have a: "run widget_object priced_store (Get_price widget)
      = Some (Returns_price (Some (Finite False 1099 (- 2))), priced_store)"
    by (simp add: cat get_price_def widget_catalog_def)
  have b: "run widget_object priced_store Get_all_items
      = Some (Returns_dict 5 widget_prices,
              snd (alloc (snd (alloc priced_store widget_prices)) widget_prices))"
    using run_Get_all_items[OF view_priced_store]
    by (simp add: catalog_widget_cart widget_prices_entries priced_store_def widget_store_def)
  show ?thesis by (simp del: run.simps add: a b)
qed

text \<open>
  The test's scenario: the caller writes \<open>"Hacked"\<close> into the dict that \<open>get_items\<close>
  returned (the object at 2) and into the one that \<open>get_all_items\<close> returned (the object
  at 3); the cart and the catalog answer as before.
\<close>

theorem copies_are_independent_witness:
  "view widget_store widget_object = Some (widget_cart 2) \<and>
   items_at widget_object < next_addr widget_store \<and>
   catalog_at widget_object < next_addr widget_store \<and>
   run widget_object widget_store Get_items
     = Some (Returns_dict 2 (QtyDict [(widget, 2)]), copied_store) \<and>
   run widget_object widget_store Get_all_items
     = Some (Returns_dict 3 widget_prices, priced_store) \<and>
   map_option fst
     (run_all widget_object
        (poke 2 (Some (OtherDict [(PyStr (py ''Hacked''), PyInt 999)])) copied_store)
        [Get_items, Get_total])
     = Some [Returns_dict 3 (QtyDict [(widget, 2)]), Returns_decimal (Finite False 2198 (- 2))] \<and>
   map_option fst
     (run_all widget_object
        (poke 3 (Some (OtherDict [(PyStr (py ''Hacked''), PyInt 999)])) priced_store)
        [Get_price widget, Get_all_items])
     = Some [Returns_price (Some (Finite False 1099 (- 2))), Returns_dict 5 widget_prices]"
proof -
  note h2 = widget_object_allocated(1) and h3 = widget_object_allocated(2)
  note indep = copies_are_independent[OF view_widget_store h2 h3]
  from indep run_widget_Get_items
  have p1: "map_option fst
     (run_all widget_object
        (poke 2 (Some (OtherDict [(PyStr (py ''Hacked''), PyInt 999)])) copied_store)
        [Get_items, Get_total])
     = map_option fst (run_all widget_object copied_store [Get_items, Get_total])"
    by blast
  from indep run_widget_Get_all_items
  have p2: "map_option fst
     (run_all widget_object
        (poke 3 (Some (OtherDict [(PyStr (py ''Hacked''), PyInt 999)])) priced_store)
        [Get_price widget, Get_all_items])
     = map_option fst (run_all widget_object priced_store [Get_price widget, Get_all_items])"
    by blast
  from p1 p2 run_copied_store run_priced_store view_widget_store h2 h3
    run_widget_Get_items run_widget_Get_all_items
  show ?thesis by (simp only: simp_thms)
qed

end
